theory Spec2Isabelle
  imports Complex_Main "HOL-Library.Word"
begin

section \<open>Data model of the Dexcom back end (functions/src/index.ts)\<close>

text \<open>
  Instants are epoch milliseconds, as \<open>Date.now()\<close> and \<open>Date.getTime()\<close> give them.
  A JavaScript \<open>Date\<close> is its time value: \<open>None\<close> is the Invalid Date (time value NaN).
  One invocation of a handler reads the clock once: every \<open>Date.now()\<close> and
  \<open>new Date()\<close> of one invocation is the parameter \<open>now\<close>.
\<close>

type_synonym js_date = "int option"

record dexcom_api_config =
  SANDBOX_BASE_URL :: string
  PRODUCTION_BASE_URL :: string
  TOKEN_EXPIRY_BUFFER_MS :: int
  REFRESH_TOKEN_EXPIRY_MS :: int
  RATE_LIMIT_MAX_CALLS :: int
  RATE_LIMIT_WINDOW_MS :: int

definition DEXCOM_API_CONFIG :: dexcom_api_config where
  "DEXCOM_API_CONFIG =
     \<lparr> SANDBOX_BASE_URL = ''https://sandbox-api.dexcom.com'',
       PRODUCTION_BASE_URL = ''https://api.dexcom.com'',
       TOKEN_EXPIRY_BUFFER_MS = 30 * 60 * 1000,
       REFRESH_TOKEN_EXPIRY_MS = 365 * 24 * 60 * 60 * 1000,
       RATE_LIMIT_MAX_CALLS = 60000,
       RATE_LIMIT_WINDOW_MS = 60 * 60 * 1000 \<rparr>"

text \<open>The credential record (interface DexcomTokens). The two server timestamps are a
  sentinel in memory and the write time once stored.\<close>

datatype field_value = ServerTimestamp | WrittenAt int

record dexcom_tokens =
  userId :: string
  accessToken :: string
  refreshToken :: string
  expiresAt :: int
  refreshTokenCreatedAt :: int
  lastRefresh :: "int option"
  createdAt :: field_value
  updatedAt :: field_value

text \<open>A reading as the vendor delivers it (interface DexcomGlucoseReading). The optional
  \<open>trendRate\<close> is absent (undefined), null or a number.\<close>

datatype opt_number = NumUndefined | NumNull | Num real

record dexcom_glucose_reading =
  systemTime :: string
  displayTime :: string
  reading_value :: real
  trend :: string
  trendRate :: opt_number

text \<open>Stored documents of the \<open>glucoseReadings\<close> collection are field maps, so that a
  merging write is what Firestore does: the fields written replace the stored ones of the
  same name and every other stored field stays.\<close>

datatype fs_value = FString string | FNumber real | FTimestamp int | FNull

type_synonym fs_doc = "string \<rightharpoonup> fs_value"

text \<open>The single document \<open>rateLimits/global\<close>. A stored document may lack \<open>calls\<close>
  (the source guards with \<open>data?.calls || []\<close>).\<close>

record rate_limit_doc =
  calls :: "int list option"
  lastReset :: int
  lastCall :: int

record health_metric =
  operation :: string
  success :: bool
  responseTime :: int
  error :: "string option"
  metric_timestamp :: int

text \<open>Requests sent to the vendor, in the order they are sent.\<close>

datatype oauth_grant = AuthorizationCode string string | RefreshGrant string

datatype vendor_call =
    TokenCall string oauth_grant
  | DataRangeCall string string
  | EgvsCall string string string string

text \<open>The state a handler reads and writes: the four Firestore collections, the
  requests sent to the vendor and the lines written with \<open>console.error\<close>.\<close>

record world =
  dexcomTokens :: "(string \<times> dexcom_tokens) list"
  glucoseReadings :: "string \<rightharpoonup> fs_doc"
  rateLimits :: "rate_limit_doc option"
  healthMetrics :: "health_metric list"
  vendorCalls :: "vendor_call list"
  errorLog :: "string list"

definition console_error :: "string \<Rightarrow> world \<Rightarrow> world" where
  "console_error msg w = w\<lparr>errorLog := errorLog w @ [msg]\<rparr>"

section \<open>JavaScript values and helpers\<close>

text \<open>What \<open>JSON.parse\<close> returns. Numbers are integers here (the timestamps of this
  program are epoch milliseconds); the properties of an object are listed once each.\<close>

datatype json =
    JNull
  | JBool bool
  | JNum int
  | JStr string
  | JArr "json list"
  | JObj "(string \<times> json) list"

text \<open>Property access \<open>v.key\<close> on a parsed value other than null: \<open>None\<close> is
  \<open>undefined\<close>. Only an object has the properties this program reads.\<close>

fun js_get :: "json \<Rightarrow> string \<Rightarrow> json option" where
  "js_get (JObj props) key = map_of props key"
| "js_get v key = None"

text \<open>Truthiness, as \<open>!v\<close> and \<open>v || d\<close> test it.\<close>

fun js_truthy :: "json option \<Rightarrow> bool" where
  "js_truthy None = False"
| "js_truthy (Some JNull) = False"
| "js_truthy (Some (JBool b)) = b"
| "js_truthy (Some (JNum n)) = (n \<noteq> 0)"
| "js_truthy (Some (JStr s)) = (s \<noteq> [])"
| "js_truthy (Some (JArr xs)) = True"
| "js_truthy (Some (JObj props)) = True"

text \<open>Strict equality \<open>a === b\<close> of two values that come from two separate parses: primitives
  compare by value, two arrays or objects are never the same object.\<close>

fun strict_equal :: "json option \<Rightarrow> json \<Rightarrow> bool" where
  "strict_equal (Some JNull) JNull = True"
| "strict_equal (Some (JBool a)) (JBool b) = (a = b)"
| "strict_equal (Some (JNum a)) (JNum b) = (a = b)"
| "strict_equal (Some (JStr a)) (JStr b) = (a = b)"
| "strict_equal a b = False"

text \<open>ToNumber, as the operand of a subtraction: \<open>None\<close> is NaN. What a string, an array
  or an object converts to is left to the parameter \<open>conv\<close>.\<close>

fun ToNumber :: "(json \<Rightarrow> int option) \<Rightarrow> json option \<Rightarrow> int option" where
  "ToNumber conv None = None"
| "ToNumber conv (Some JNull) = Some 0"
| "ToNumber conv (Some (JBool b)) = Some (if b then 1 else 0)"
| "ToNumber conv (Some (JNum n)) = Some n"
| "ToNumber conv (Some v) = conv v"

text \<open>A string parameter of a request: absent, or a string; the empty string is falsy.\<close>

definition truthy_str :: "string option \<Rightarrow> bool" where
  "truthy_str s = (case s of None \<Rightarrow> False | Some x \<Rightarrow> x \<noteq> [])"

text \<open>\<open>String(n)\<close> for an integral number (a time value is below 1e21 in magnitude, so the
  rendering is the plain decimal one).\<close>

definition digit_char :: "nat \<Rightarrow> char" where
  "digit_char d = ''0123456789'' ! d"

fun decimal :: "nat \<Rightarrow> string" where
  "decimal n = (if n < 10 then [digit_char n] else decimal (n div 10) @ [digit_char (n mod 10)])"

declare decimal.simps [simp del]

definition Number_toString :: "int \<Rightarrow> string" where
  "Number_toString i = (if i < 0 then CHR ''-'' # decimal (nat (- i)) else decimal (nat i))"

text \<open>\<open>haystack.includes(needle)\<close>.\<close>

fun starts_with :: "string \<Rightarrow> string \<Rightarrow> bool" where
  "starts_with s [] = True"
| "starts_with [] (c # cs) = False"
| "starts_with (a # s) (c # cs) = (a = c \<and> starts_with s cs)"

fun includes_str :: "string \<Rightarrow> string \<Rightarrow> bool" where
  "includes_str [] needle = (needle = [])"
| "includes_str (a # s) needle = (starts_with (a # s) needle \<or> includes_str s needle)"

text \<open>\<open>buffer.toString('hex')\<close>.\<close>

definition hex_char :: "nat \<Rightarrow> char" where
  "hex_char d = ''0123456789abcdef'' ! d"

definition toHex :: "8 word list \<Rightarrow> string" where
  "toHex bytes = concat (map (\<lambda>b. [hex_char (unat b div 16), hex_char (unat b mod 16)]) bytes)"

section \<open>Errors, vendor responses and the environment\<close>

text \<open>What a handler throws: an \<open>HttpsError\<close> with its code and message, or any other
  exception (a network failure, a storage failure, a TypeError, a RangeError).\<close>

datatype func_error = HttpsError string string | JsError string

text \<open>The outcome of a \<open>fetch\<close>: the promise rejects, or a response arrives with its status,
  its text and, when the text is JSON of the expected shape, the parsed body
  (\<open>None\<close>: \<open>response.json()\<close> throws).\<close>

datatype 'a http_result = NetworkError | Response int string "'a option"

definition response_ok :: "int \<Rightarrow> bool" where
  "response_ok status = (200 \<le> status \<and> status \<le> 299)"

record token_data =
  access_token :: string
  refresh_token :: string
  expires_in :: int

record egvs_body =
  resp_records :: "dexcom_glucose_reading list option"
  resp_egvs :: "dexcom_glucose_reading list option"

text \<open>interface DexcomDataRange: every level is optional.\<close>

record range_instant =
  range_systemTime :: string
  range_displayTime :: string

record range_bounds =
  range_start :: "range_instant option"
  range_end :: "range_instant option"

record dexcom_data_range =
  egvs :: "range_bounds option"
  calibrations :: "range_bounds option"
  events :: "range_bounds option"

text \<open>What \<open>getDexcomConfig()\<close> returns.\<close>

record dexcom_config =
  clientId :: "string option"
  clientSecret :: "string option"
  redirectUri :: "string option"
  useSandbox :: bool
  frontendUrl :: string

text \<open>
  Everything outside the program, fixed for one invocation: the configuration; the
  library functions that are given as parameters (\<open>new Date(string)\<close>, the local-time
  formatting of \<open>formatDexcomDate\<close>, \<open>encodeURIComponent\<close>, the base64-of-JSON coding of the
  state token and its decoding, the numeric conversion of non-numbers); which storage
  operations throw, by the user they are made for; and what the vendor answers.
\<close>

record env =
  dexcomConfig :: dexcom_config
  Date_parse :: "string \<Rightarrow> int option"
  formatDate :: "int \<Rightarrow> string"
  encodeURIComponent :: "string \<Rightarrow> string"
  state_encode :: "json \<Rightarrow> string"
  state_decode :: "string \<Rightarrow> json option"
  number_conv :: "json \<Rightarrow> int option"
  tokens_get_fails :: "string \<Rightarrow> bool"
  tokens_set_fails :: "string \<Rightarrow> bool"
  tokens_list_fails :: bool
  rate_txn_fails :: "string \<Rightarrow> bool"
  readings_commit_fails :: "string \<Rightarrow> bool"
  metric_add_fails :: bool
  token_endpoint :: "oauth_grant \<Rightarrow> token_data http_result"
  dataRange_endpoint :: "string \<Rightarrow> dexcom_data_range http_result"
  egvs_endpoint :: "string \<Rightarrow> string \<Rightarrow> string \<Rightarrow> egvs_body http_result"

definition send_vendor :: "vendor_call \<Rightarrow> world \<Rightarrow> world" where
  "send_vendor c w = w\<lparr>vendorCalls := vendorCalls w @ [c]\<rparr>"

section \<open>Error classification (handleDexcomError)\<close>

definition DEXCOM_ERROR_CODES :: "int \<rightharpoonup> (string \<times> string \<times> bool)" where
  "DEXCOM_ERROR_CODES = map_of
     [ (400, (''Bad Request - Invalid parameters'', ''Invalid request parameters'', False)),
       (401, (''Unauthorized - Invalid or expired token'', ''Authentication expired. Please reconnect.'', False)),
       (403, (''Forbidden - Insufficient permissions'', ''Access denied. Please check permissions.'', False)),
       (404, (''Not Found - Endpoint or resource not found'', ''Requested data not found'', False)),
       (409, (''Conflict - Resource conflict'', ''Data conflict occurred'', False)),
       (429, (''Too Many Requests - Rate limit exceeded'', ''Too many requests. Please try again later.'', True)),
       (500, (''Internal Server Error - Dexcom API error'', ''Dexcom service temporarily unavailable'', True)),
       (502, (''Bad Gateway - Upstream server error'', ''Service temporarily unavailable'', True)),
       (503, (''Service Unavailable - Dexcom maintenance'', ''Dexcom service under maintenance'', True)),
       (504, (''Gateway Timeout - Request timeout'', ''Request timed out. Please try again.'', True)) ]"

record dexcom_api_error =
  err_status :: int
  err_message :: string
  userMessage :: string
  isRetryable :: bool

definition handleDexcomError :: "int \<Rightarrow> dexcom_api_error" where
  "handleDexcomError status =
     (case DEXCOM_ERROR_CODES status of
        Some (m, u, r) \<Rightarrow>
          \<lparr> err_status = status, err_message = m, userMessage = u, isRetryable = r \<rparr>
      | None \<Rightarrow>
          \<lparr> err_status = status,
            err_message = ''HTTP '' @ Number_toString status @ '' - Unknown error'',
            userMessage = ''An unexpected error occurred'', isRetryable = False \<rparr>)"

section \<open>Rate limiting (checkRateLimit)\<close>

record rate_limit_result =
  allowed :: bool
  remaining :: int
  resetTime :: int

text \<open>The calls of the stored ledger: \<open>doc.exists ? doc.data() : {calls: []}\<close>, then
  \<open>data?.calls || []\<close>.\<close>

definition ledger_calls :: "world \<Rightarrow> int list" where
  "ledger_calls w =
     (case rateLimits w of
        None \<Rightarrow> []
      | Some d \<Rightarrow> (case calls d of None \<Rightarrow> [] | Some cs \<Rightarrow> cs))"

text \<open>\<open>checkRateLimit\<close> reads its two constants from \<open>DEXCOM_API_CONFIG\<close>; the
  configuration is a parameter here and the handlers pass \<open>DEXCOM_API_CONFIG\<close>.
  \<open>txn_fails\<close> says whether \<open>db.runTransaction\<close> throws (storage unavailable): then
  nothing is written and the catch block answers.\<close>

definition checkRateLimit ::
  "dexcom_api_config \<Rightarrow> bool \<Rightarrow> int \<Rightarrow> world \<Rightarrow> rate_limit_result \<times> world" where
  "checkRateLimit cfg txn_fails now w =
     (let windowStart = now - RATE_LIMIT_WINDOW_MS cfg in
      if txn_fails then
        (\<lparr> allowed = True, remaining = RATE_LIMIT_MAX_CALLS cfg,
           resetTime = now + RATE_LIMIT_WINDOW_MS cfg \<rparr>,
         console_error ''Rate limit check failed:'' w)
      else
        let recentCalls = filter (\<lambda>timestamp. timestamp > windowStart) (ledger_calls w);
            remaining = RATE_LIMIT_MAX_CALLS cfg - int (length recentCalls);
            allowed = remaining > 0
        in (\<lparr> allowed = allowed, remaining = max 0 remaining,
              resetTime = now + RATE_LIMIT_WINDOW_MS cfg \<rparr>,
            if allowed
            then w\<lparr>rateLimits :=
                    Some \<lparr> calls = Some (recentCalls @ [now]), lastReset = now, lastCall = now \<rparr>\<rparr>
            else w))"

section \<open>State token codec (generateSecureState, validateState)\<close>

text \<open>\<open>nonce_bytes\<close> are the bytes \<open>crypto.randomBytes(16)\<close> returned and \<open>now\<close> the instant
  of issue; \<open>state_encode\<close> is \<open>JSON.stringify\<close> followed by the base64 coding.\<close>

definition generateSecureState :: "env \<Rightarrow> 8 word list \<Rightarrow> int \<Rightarrow> string \<Rightarrow> string" where
  "generateSecureState env nonce_bytes now uid =
     state_encode env
       (JObj [(''userId'', JStr uid), (''timestamp'', JNum now), (''nonce'', JStr (toHex nonce_bytes))])"

record validation =
  valid :: bool
  reason :: "string option"

text \<open>\<open>state_decode\<close> is the base64 decoding followed by \<open>JSON.parse\<close>; \<open>None\<close> when the
  parse throws. Reading a property of null throws too; both land in the catch block.
  \<open>expectedUserId\<close> is declared a string; the callback passes whatever the decoded state
  holds, so it is a parsed value here.\<close>

definition validateState :: "env \<Rightarrow> int \<Rightarrow> string \<Rightarrow> json \<Rightarrow> validation" where
  "validateState env now state expectedUserId =
     (case state_decode env state of
        None \<Rightarrow> \<lparr> valid = False, reason = Some ''Invalid state format'' \<rparr>
      | Some JNull \<Rightarrow> \<lparr> valid = False, reason = Some ''Invalid state format'' \<rparr>
      | Some stateData \<Rightarrow>
          if \<not> js_truthy (js_get stateData ''userId'') \<or> \<not> js_truthy (js_get stateData ''timestamp'')
             \<or> \<not> js_truthy (js_get stateData ''nonce'')
          then \<lparr> valid = False, reason = Some ''Missing required state fields'' \<rparr>
          else if \<not> strict_equal (js_get stateData ''userId'') expectedUserId
          then \<lparr> valid = False, reason = Some ''User ID mismatch'' \<rparr>
          else
            (case ToNumber (number_conv env) (js_get stateData ''timestamp'') of
               None \<Rightarrow> \<lparr> valid = True, reason = None \<rparr>
             | Some ts \<Rightarrow>
                 let stateAge = now - ts in
                 if stateAge > 60 * 60 * 1000
                 then \<lparr> valid = False, reason = Some ''State parameter expired'' \<rparr>
                 else \<lparr> valid = True, reason = None \<rparr>))"

section \<open>Token store (getUserTokens, saveUserTokens)\<close>

text \<open>The collection \<open>dexcomTokens\<close> is the list of its documents, each with its
  identifier (no identifier twice), so that the scheduled sweep can enumerate it.
  \<open>doc(id).set(data)\<close> replaces the document of that identifier or adds one.\<close>

fun set_doc :: "string \<Rightarrow> 'a \<Rightarrow> (string \<times> 'a) list \<Rightarrow> (string \<times> 'a) list" where
  "set_doc k v [] = [(k, v)]"
| "set_doc k v (p # ps) = (if fst p = k then (k, v) # ps else p # set_doc k v ps)"

definition getUserTokens :: "env \<Rightarrow> string \<Rightarrow> world \<Rightarrow> dexcom_tokens option \<times> world" where
  "getUserTokens env uid w =
     (if tokens_get_fails env uid then (None, console_error ''Error getting user tokens:'' w)
      else (map_of (dexcomTokens w) uid, w))"

text \<open>\<open>saveUserTokens(userId, tokens)\<close> with the fields of \<open>tokens\<close> as arguments;
  \<open>tokens.refreshTokenCreatedAt || Date.now()\<close> replaces an absent or zero value.\<close>

definition saveUserTokens ::
  "env \<Rightarrow> int \<Rightarrow> string \<Rightarrow> string \<Rightarrow> string \<Rightarrow> int \<Rightarrow> int option \<Rightarrow> world
     \<Rightarrow> (func_error + unit) \<times> world" where
  "saveUserTokens env now uid acc rt expiry created w =
     (if tokens_set_fails env uid
      then (Inl (JsError ''token write failed''), console_error ''Error saving user tokens:'' w)
      else (Inr (),
            w\<lparr>dexcomTokens := set_doc uid
                 \<lparr> userId = uid, accessToken = acc, refreshToken = rt, expiresAt = expiry,
                   refreshTokenCreatedAt =
                     (case created of None \<Rightarrow> now | Some c \<Rightarrow> if c = 0 then now else c),
                   lastRefresh = Some now, createdAt = WrittenAt now, updatedAt = WrittenAt now \<rparr>
                 (dexcomTokens w)\<rparr>))"

section \<open>Health metrics (recordHealthMetric)\<close>

definition recordHealthMetric ::
  "env \<Rightarrow> int \<Rightarrow> string \<Rightarrow> bool \<Rightarrow> int option \<Rightarrow> string option \<Rightarrow> world \<Rightarrow> world" where
  "recordHealthMetric env now op ok rtime err w =
     (if metric_add_fails env then console_error ''Failed to record health metric:'' w
      else w\<lparr>healthMetrics := healthMetrics w @
             [\<lparr> operation = op, success = ok,
                responseTime = (case rtime of None \<Rightarrow> 0 | Some t \<Rightarrow> t),
                error = (if truthy_str err then err else None),
                metric_timestamp = now \<rparr>]\<rparr>)"

section \<open>Reading storage (storeGlucoseReadings)\<close>

text \<open>\<open>admin.firestore.Timestamp.fromDate\<close> throws on an Invalid Date and on an instant
  whose seconds lie outside the years 1 to 9999 (\<open>None\<close>).\<close>

definition Timestamp_fromDate :: "js_date \<Rightarrow> int option" where
  "Timestamp_fromDate d =
     (case d of
        None \<Rightarrow> None
      | Some ms \<Rightarrow>
          if - 62135596800 \<le> ms div 1000 \<and> ms div 1000 \<le> 253402300799 then Some ms else None)"

text \<open>The document identifier: the template literal
  \<open>${userId}_${new Date(reading.systemTime).getTime()}\<close>.\<close>

definition docId_of :: "string \<Rightarrow> js_date \<Rightarrow> string" where
  "docId_of uid d =
     uid @ ''_'' @ (case d of None \<Rightarrow> ''NaN'' | Some ms \<Rightarrow> Number_toString ms)"

definition trendRate_value :: "opt_number \<Rightarrow> fs_value option" where
  "trendRate_value t =
     (case t of NumUndefined \<Rightarrow> None | NumNull \<Rightarrow> Some FNull | Num r \<Rightarrow> Some (FNumber r))"

text \<open>One turn of the loop: the identifier and the document handed to \<open>batch.set\<close>.
  \<open>None\<close> when the turn throws: a date that \<open>Timestamp.fromDate\<close> refuses, or an undefined
  \<open>trendRate\<close>, which the Firestore client refuses as a field value (the source does not
  switch \<open>ignoreUndefinedProperties\<close> on). \<open>recordedAt\<close> is the server's time of the write.\<close>

definition reading_write ::
  "(string \<Rightarrow> int option) \<Rightarrow> int \<Rightarrow> string \<Rightarrow> dexcom_glucose_reading \<Rightarrow> (string \<times> fs_doc) option" where
  "reading_write parse now uid reading =
     (let docId = docId_of uid (parse (systemTime reading)) in
      case Timestamp_fromDate (parse (systemTime reading)) of
        None \<Rightarrow> None
      | Some st \<Rightarrow>
          (case Timestamp_fromDate (parse (displayTime reading)) of
             None \<Rightarrow> None
           | Some dt \<Rightarrow>
               (case trendRate_value (trendRate reading) of
                  None \<Rightarrow> None
                | Some tr \<Rightarrow>
                    Some (docId,
                      map_of
                        [ (''userId'', FString uid),
                          (''systemTime'', FTimestamp st),
                          (''displayTime'', FTimestamp dt),
                          (''value'', FNumber (reading_value reading)),
                          (''unit'', FString ''mg/dL''),
                          (''trend'', FString (trend reading)),
                          (''trendRate'', tr),
                          (''recordedAt'', FTimestamp now) ]))))"

fun batch_writes ::
  "(string \<Rightarrow> int option) \<Rightarrow> int \<Rightarrow> string \<Rightarrow> dexcom_glucose_reading list
     \<Rightarrow> (string \<times> fs_doc) list option" where
  "batch_writes parse now uid [] = Some []"
| "batch_writes parse now uid (reading # rest) =
     (case reading_write parse now uid reading of
        None \<Rightarrow> None
      | Some wr \<Rightarrow>
          (case batch_writes parse now uid rest of
             None \<Rightarrow> None
           | Some ws \<Rightarrow> Some (wr # ws)))"

text \<open>\<open>set(ref, data, {merge: true})\<close> on one document, and the commit of a batch: its
  writes in order, all or none.\<close>

definition merge_set :: "string \<times> fs_doc \<Rightarrow> (string \<rightharpoonup> fs_doc) \<Rightarrow> (string \<rightharpoonup> fs_doc)" where
  "merge_set wr store =
     store(fst wr \<mapsto> (case store (fst wr) of None \<Rightarrow> snd wr | Some old \<Rightarrow> old ++ snd wr))"

definition commit_batch :: "(string \<times> fs_doc) list \<Rightarrow> (string \<rightharpoonup> fs_doc) \<Rightarrow> (string \<rightharpoonup> fs_doc)" where
  "commit_batch writes store = fold merge_set writes store"

definition storeGlucoseReadings ::
  "env \<Rightarrow> int \<Rightarrow> string \<Rightarrow> dexcom_glucose_reading list \<Rightarrow> world \<Rightarrow> (func_error + unit) \<times> world" where
  "storeGlucoseReadings env now uid readings w =
     (if readings = [] then (Inr (), w)
      else
        case batch_writes (Date_parse env) now uid readings of
          None \<Rightarrow>
            (Inl (JsError ''reading refused''),
             console_error ''Error processing reading for storage:'' w)
        | Some writes \<Rightarrow>
            if readings_commit_fails env uid
            then (Inl (JsError ''batch commit failed''),
                  console_error ''Failed to commit batch to Firestore:'' w)
            else (Inr (), w\<lparr>glucoseReadings := commit_batch writes (glucoseReadings w)\<rparr>))"

section \<open>Sandbox data range (getDexcomDataRange, adjustDatesForSandbox)\<close>

definition getDexcomDataRange ::
  "env \<Rightarrow> string \<Rightarrow> string \<Rightarrow> world \<Rightarrow> dexcom_data_range option \<times> world" where
  "getDexcomDataRange env token baseUrl w =
     (let w1 = send_vendor (DataRangeCall baseUrl token) w in
      case dataRange_endpoint env token of
        NetworkError \<Rightarrow> (None, console_error ''Error fetching data range:'' w1)
      | Response status body parsed \<Rightarrow>
          if \<not> response_ok status then (None, console_error ''Failed to fetch data range:'' w1)
          else
            (case parsed of
               None \<Rightarrow> (None, console_error ''Error fetching data range:'' w1)
             | Some dataRange \<Rightarrow> (Some dataRange, w1)))"

record date_adjustment =
  adj_startDate :: js_date
  adj_endDate :: js_date
  adjusted :: bool

text \<open>\<open>dataRange?.egvs?.start\<close> and \<open>dataRange?.egvs?.end\<close>.\<close>

definition egvs_start_of :: "dexcom_data_range option \<Rightarrow> range_instant option" where
  "egvs_start_of dataRange =
     (case dataRange of
        None \<Rightarrow> None
      | Some dr \<Rightarrow> (case egvs dr of None \<Rightarrow> None | Some b \<Rightarrow> range_start b))"

definition egvs_end_of :: "dexcom_data_range option \<Rightarrow> range_instant option" where
  "egvs_end_of dataRange =
     (case dataRange of
        None \<Rightarrow> None
      | Some dr \<Rightarrow> (case egvs dr of None \<Rightarrow> None | Some b \<Rightarrow> range_end b))"

text \<open>\<open>new Date(instant.systemTime)\<close> of a bound that is present.\<close>

definition available_date :: "(string \<Rightarrow> int option) \<Rightarrow> range_instant option \<Rightarrow> js_date" where
  "available_date parse bound =
     (case bound of None \<Rightarrow> None | Some i \<Rightarrow> parse (range_systemTime i))"

text \<open>
  The first \<open>console.log\<close> of the function calls \<open>toISOString()\<close> on the two requested and
  the two available dates, which throws a RangeError on an Invalid Date; past it the four
  dates are numbers.
\<close>

definition adjustDatesForSandbox ::
  "(string \<Rightarrow> int option) \<Rightarrow> js_date \<Rightarrow> js_date \<Rightarrow> dexcom_data_range option \<Rightarrow> bool
     \<Rightarrow> func_error + date_adjustment" where
  "adjustDatesForSandbox parse requestedStartDate requestedEndDate dataRange sandbox =
     (if \<not> sandbox \<or> egvs_start_of dataRange = None \<or> egvs_end_of dataRange = None
      then Inr \<lparr> adj_startDate = requestedStartDate, adj_endDate = requestedEndDate,
                 adjusted = False \<rparr>
      else
        case (requestedStartDate, requestedEndDate,
              available_date parse (egvs_start_of dataRange),
              available_date parse (egvs_end_of dataRange)) of
          (Some reqStart, Some reqEnd, Some availableStart, Some availableEnd) \<Rightarrow>
            if reqStart > availableEnd \<or> reqEnd < availableStart
            then
              let duration = min (12 * 60 * 60 * 1000) (availableEnd - availableStart) in
              Inr \<lparr> adj_startDate = Some (availableEnd - duration),
                    adj_endDate = Some availableEnd, adjusted = True \<rparr>
            else
              let adjustedStart = max reqStart availableStart;
                  adjustedEnd = min reqEnd availableEnd;
                  wasAdjusted = (adjustedStart \<noteq> reqStart \<or> adjustedEnd \<noteq> reqEnd)
              in Inr \<lparr> adj_startDate = Some adjustedStart, adj_endDate = Some adjustedEnd,
                       adjusted = wasAdjusted \<rparr>
        | _ \<Rightarrow> Inl (JsError ''RangeError: Invalid time value''))"

section \<open>Token refresh (refreshAccessToken)\<close>

definition getDexcomBaseUrl :: "bool \<Rightarrow> string" where
  "getDexcomBaseUrl sandbox =
     (if sandbox then SANDBOX_BASE_URL DEXCOM_API_CONFIG else PRODUCTION_BASE_URL DEXCOM_API_CONFIG)"

definition refreshAccessToken ::
  "env \<Rightarrow> int \<Rightarrow> string \<Rightarrow> string \<Rightarrow> world \<Rightarrow> (func_error + dexcom_tokens) \<times> world" where
  "refreshAccessToken env now uid rt w =
     (let baseUrl = getDexcomBaseUrl (useSandbox (dexcomConfig env));
          w1 = send_vendor (TokenCall (baseUrl @ ''/v2/oauth2/token'') (RefreshGrant rt)) w
      in case token_endpoint env (RefreshGrant rt) of
           NetworkError \<Rightarrow> (Inl (JsError ''fetch failed''), w1)
         | Response status body parsed \<Rightarrow>
             if \<not> response_ok status
             then (Inl (HttpsError ''internal'' (userMessage (handleDexcomError status))),
                   console_error (''Token refresh failed: '' @ err_message (handleDexcomError status)) w1)
             else
               (case parsed of
                  None \<Rightarrow> (Inl (JsError ''response is not JSON''), w1)
                | Some tokenData \<Rightarrow>
                    (case saveUserTokens env now uid (access_token tokenData)
                            (refresh_token tokenData) (now + expires_in tokenData * 1000) (Some now) w1 of
                       (Inl e, w2) \<Rightarrow> (Inl e, w2)
                     | (Inr u, w2) \<Rightarrow>
                         (Inr \<lparr> userId = uid, accessToken = access_token tokenData,
                                refreshToken = refresh_token tokenData,
                                expiresAt = now + expires_in tokenData * 1000,
                                refreshTokenCreatedAt = now, lastRefresh = Some now,
                                createdAt = ServerTimestamp, updatedAt = ServerTimestamp \<rparr>, w2))))"

text \<open>The refresh block that \<open>dexcomFetchGlucoseData\<close> (lines 768 to 773) and the sweep
  (lines 1102 to 1107) both contain.\<close>

definition refresh_if_expiring ::
  "env \<Rightarrow> int \<Rightarrow> string \<Rightarrow> dexcom_tokens \<Rightarrow> world \<Rightarrow> (func_error + dexcom_tokens) \<times> world" where
  "refresh_if_expiring env now uid tokens w =
     (if now \<ge> expiresAt tokens \<or> now + TOKEN_EXPIRY_BUFFER_MS DEXCOM_API_CONFIG \<ge> expiresAt tokens
      then refreshAccessToken env now uid (refreshToken tokens) w
      else (Inr tokens, w))"

section \<open>OAuth callback (dexcomOAuthCallback)\<close>

record callback_query =
  q_code :: "string option"
  q_state :: "string option"
  q_error :: "string option"

datatype redirect = Redirect string

definition str_of :: "string option \<Rightarrow> string" where
  "str_of s = (case s of None \<Rightarrow> [] | Some x \<Rightarrow> x)"

text \<open>The outer catch block of the handler (lines 638 to 647).\<close>

definition callback_catch :: "env \<Rightarrow> world \<Rightarrow> redirect \<times> world" where
  "callback_catch env w =
     (Redirect (frontendUrl (dexcomConfig env) @ ''/dexcom?error=internal_error''),
      console_error ''Error details:'' (console_error ''Error in OAuth callback:'' w))"

text \<open>Lines 616 to 633: the credential record is saved; a failure of the save is caught
  and logged. \<open>doc(userId)\<close> throws inside \<open>saveUserTokens\<close> when the identifier decoded from
  the state is not a string.\<close>

definition callback_persist :: "env \<Rightarrow> int \<Rightarrow> json \<Rightarrow> token_data \<Rightarrow> world \<Rightarrow> world" where
  "callback_persist env now uid tokenData w =
     (case (case uid of
              JStr s \<Rightarrow>
                saveUserTokens env now s (access_token tokenData) (refresh_token tokenData)
                  (now + expires_in tokenData * 1000) (Some now) w
            | _ \<Rightarrow>
                (Inl (JsError ''document path is not a string''),
                 console_error ''Error saving user tokens:'' w)) of
        (Inl firestoreError, w1) \<Rightarrow> console_error ''Firestore save failed:'' w1
      | (Inr u, w1) \<Rightarrow> w1)"

text \<open>Lines 584 to 636: the exchange of the code for tokens, the save and the redirect.
  \<open>Inl\<close> is an exception that reaches the outer catch block.\<close>

definition callback_exchange ::
  "env \<Rightarrow> int \<Rightarrow> string \<Rightarrow> json \<Rightarrow> world \<Rightarrow> (func_error + redirect) \<times> world" where
  "callback_exchange env now code uid w =
     (let config = dexcomConfig env;
          baseUrl = getDexcomBaseUrl (useSandbox config);
          grant = AuthorizationCode code (str_of (redirectUri config));
          w1 = send_vendor (TokenCall (baseUrl @ ''/v2/oauth2/token'') grant) w
      in case token_endpoint env grant of
           NetworkError \<Rightarrow> (Inl (JsError ''fetch failed''), w1)
         | Response status body parsed \<Rightarrow>
             if \<not> response_ok status
             then (Inr (Redirect (frontendUrl config @ ''/dexcom?error=token_exchange_failed'')),
                   console_error (''Token exchange failed: '' @ err_message (handleDexcomError status)) w1)
             else
               (case parsed of
                  None \<Rightarrow> (Inl (JsError ''response is not JSON''), w1)
                | Some tokenData \<Rightarrow>
                    (Inr (Redirect (frontendUrl config @ ''/dexcom?success=true'')),
                     callback_persist env now uid tokenData w1)))"

definition dexcomOAuthCallback :: "env \<Rightarrow> int \<Rightarrow> callback_query \<Rightarrow> world \<Rightarrow> redirect \<times> world" where
  "dexcomOAuthCallback env now query w =
     (let config = dexcomConfig env in
      if \<not> (truthy_str (clientId config) \<and> truthy_str (clientSecret config)
             \<and> truthy_str (redirectUri config))
      then (Redirect ((if frontendUrl config \<noteq> [] then frontendUrl config else ''http://localhost:5173'')
                       @ ''/dexcom?error=configuration_error''),
            console_error ''Missing Dexcom configuration:'' w)
      else if truthy_str (q_error query)
      then (Redirect (frontendUrl config @ ''/dexcom?error=''
                       @ encodeURIComponent env (str_of (q_error query))),
            console_error ''OAuth error:'' w)
      else if \<not> truthy_str (q_code query) \<or> \<not> truthy_str (q_state query)
      then (Redirect (frontendUrl config @ ''/dexcom?error=missing_parameters''),
            console_error ''Missing code or state'' w)
      else
        case state_decode env (str_of (q_state query)) of
          None \<Rightarrow>
            (Redirect (frontendUrl config @ ''/dexcom?error=invalid_state''),
             console_error ''Invalid state parameter format'' w)
        | Some JNull \<Rightarrow> callback_catch env w
        | Some stateData \<Rightarrow>
            (case js_get stateData ''userId'' of
               None \<Rightarrow>
                 (Redirect (frontendUrl config @ ''/dexcom?error=invalid_state''),
                  console_error ''No userId in state'' w)
             | Some uid \<Rightarrow>
                 if \<not> js_truthy (Some uid)
                 then (Redirect (frontendUrl config @ ''/dexcom?error=invalid_state''),
                       console_error ''No userId in state'' w)
                 else if \<not> valid (validateState env now (str_of (q_state query)) uid)
                 then (Redirect (frontendUrl config @ ''/dexcom?error=invalid_state''),
                       console_error ''State validation failed:'' w)
                 else
                   (case callback_exchange env now (str_of (q_code query)) uid w of
                      (Inl e, w1) \<Rightarrow> callback_catch env w1
                    | (Inr r, w1) \<Rightarrow> (r, w1))))"

section \<open>On-demand fetch (dexcomFetchGlucoseData)\<close>

record fetch_request =
  startDate :: "string option"
  endDate :: "string option"

record adjusted_date_range =
  originalStart :: "string option"
  originalEnd :: "string option"
  adjustedStart :: string
  adjustedEnd :: string

record fetch_response =
  glucoseData :: "dexcom_glucose_reading list"
  rateLimitRemaining :: int
  rateLimitResetTime :: int
  sandbox :: bool
  datesAdjusted :: bool
  adjustedDateRange :: "adjusted_date_range option"
  availableDataRange :: "(string option \<times> string option) option"

text \<open>Lines 819 to 832: the requested window. Both bounds are used when both are given
  (truthy); otherwise the window is the 12 hours that end now.\<close>

definition requested_window ::
  "(string \<Rightarrow> int option) \<Rightarrow> int \<Rightarrow> string option \<Rightarrow> string option \<Rightarrow> js_date \<times> js_date" where
  "requested_window parse now start_param end_param =
     (if truthy_str start_param \<and> truthy_str end_param
      then (parse (str_of start_param), parse (str_of end_param))
      else (Some (now - 12 * 60 * 60 * 1000), Some now))"

text \<open>\<open>new Date('2020-01-01')\<close>: midnight UTC.\<close>

definition minAllowedDate :: int where
  "minAllowedDate = 1577836800000"

text \<open>Lines 834 to 864: the checks on the parsed dates, in the order of the source.\<close>

definition validate_window :: "js_date \<Rightarrow> js_date \<Rightarrow> world \<Rightarrow> (func_error + int \<times> int) \<times> world" where
  "validate_window parsedStartDate parsedEndDate w =
     (case (parsedStartDate, parsedEndDate) of
        (Some s, Some e) \<Rightarrow>
          (if s < minAllowedDate
           then Inl (HttpsError ''invalid-argument'' ''Start date cannot be before 2020'')
           else if e < minAllowedDate
           then Inl (HttpsError ''invalid-argument'' ''End date cannot be before 2020'')
           else if s \<ge> e
           then Inl (HttpsError ''invalid-argument'' ''Start date must be before end date'')
           else if e - s > 365 * 24 * 60 * 60 * 1000
           then Inl (HttpsError ''invalid-argument'' ''Date range cannot exceed 1 year'')
           else Inr (s, e), w)
      | _ \<Rightarrow>
          (Inl (HttpsError ''invalid-argument'' ''Invalid date format provided''),
           console_error ''Invalid date format detected:'' w))"

text \<open>Lines 866 to 898: the window sent to the vendor. With a data range in sandbox mode
  the dates are adjusted to it; otherwise a start in the future is refused and an end in
  the future becomes now.\<close>

definition final_window ::
  "env \<Rightarrow> int \<Rightarrow> dexcom_data_range option \<Rightarrow> int \<Rightarrow> int \<Rightarrow> func_error + date_adjustment" where
  "final_window env now dataRange s e =
     (if useSandbox (dexcomConfig env) \<and> dataRange \<noteq> None
      then adjustDatesForSandbox (Date_parse env) (Some s) (Some e) dataRange
             (useSandbox (dexcomConfig env))
      else if s > now
      then Inl (HttpsError ''invalid-argument'' ''Start date cannot be in the future'')
      else Inr \<lparr> adj_startDate = Some s, adj_endDate = Some (if e > now then now else e),
                 adjusted = False \<rparr>)"

text \<open>\<open>formatDexcomDate\<close>: its \<open>console.log\<close> calls \<open>toISOString()\<close>, which throws on an
  Invalid Date.\<close>

definition formatDexcomDate :: "env \<Rightarrow> js_date \<Rightarrow> func_error + string" where
  "formatDexcomDate env d =
     (case d of
        None \<Rightarrow> Inl (JsError ''RangeError: Invalid time value'')
      | Some t \<Rightarrow> Inr (formatDate env t))"

text \<open>\<open>responseData.records || responseData.egvs || []\<close> (an empty array is truthy).\<close>

definition readings_of :: "egvs_body \<Rightarrow> dexcom_glucose_reading list" where
  "readings_of responseData =
     (case resp_records responseData of
        Some rs \<Rightarrow> rs
      | None \<Rightarrow> (case resp_egvs responseData of Some es \<Rightarrow> es | None \<Rightarrow> []))"

text \<open>Lines 926 to 956: the vendor answered with a status that is not a success.\<close>

definition egvs_failure ::
  "env \<Rightarrow> int \<Rightarrow> int \<Rightarrow> string \<Rightarrow> string \<Rightarrow> string \<Rightarrow> world \<Rightarrow> func_error \<times> world" where
  "egvs_failure env now status errorText formattedStart formattedEnd w =
     (let dexcomError = handleDexcomError status;
          w1 = console_error (''Dexcom API error: '' @ err_message dexcomError) w;
          w2 = (if status = 400 then console_error ''Dexcom API 400 error details:'' w1 else w1)
      in if status = 400 \<and> includes_str errorText ''date''
         then (HttpsError ''invalid-argument''
                 (''Invalid date parameters sent to Dexcom API. Sent: '' @ formattedStart @ '' to ''
                    @ formattedEnd @ ''. API response: '' @ errorText),
               recordHealthMetric env now ''dexcom_glucose_fetch'' False (Some 0)
                 (Some ''Invalid date parameters'') w2)
         else (HttpsError ''failed-precondition'' (userMessage dexcomError),
               recordHealthMetric env now ''dexcom_glucose_fetch'' False (Some 0)
                 (Some (err_message dexcomError)) w2))"

text \<open>Lines 900 to 1034: the request to the vendor, the storage of the readings and the
  answer to the caller.\<close>

definition fetch_and_store ::
  "env \<Rightarrow> int \<Rightarrow> string \<Rightarrow> dexcom_tokens \<Rightarrow> rate_limit_result \<Rightarrow> fetch_request
     \<Rightarrow> dexcom_data_range option \<Rightarrow> date_adjustment \<Rightarrow> world
     \<Rightarrow> (func_error + fetch_response) \<times> world" where
  "fetch_and_store env now uid tokens rateLimitCheck req dataRange adjustment w =
     (let config = dexcomConfig env; baseUrl = getDexcomBaseUrl (useSandbox config) in
      case (formatDexcomDate env (adj_startDate adjustment),
            formatDexcomDate env (adj_endDate adjustment)) of
        (Inr formattedStart, Inr formattedEnd) \<Rightarrow>
          (let w1 = send_vendor
                      (EgvsCall baseUrl (accessToken tokens) formattedStart formattedEnd) w
           in case egvs_endpoint env (accessToken tokens) formattedStart formattedEnd of
                NetworkError \<Rightarrow> (Inl (JsError ''fetch failed''), w1)
              | Response status body parsed \<Rightarrow>
                  if \<not> response_ok status
                  then (case egvs_failure env now status body formattedStart formattedEnd w1 of
                          (e, w2) \<Rightarrow> (Inl e, w2))
                  else
                    (case parsed of
                       None \<Rightarrow> (Inl (JsError ''response is not JSON''), w1)
                     | Some responseData \<Rightarrow>
                         (case storeGlucoseReadings env now uid (readings_of responseData) w1 of
                            (Inl e, w2) \<Rightarrow>
                              (Inl (HttpsError ''internal'' ''Failed to store glucose data''),
                               console_error ''Failed to store glucose readings:'' w2)
                          | (Inr u, w2) \<Rightarrow>
                              (Inr \<lparr> glucoseData = readings_of responseData,
                                     rateLimitRemaining = remaining rateLimitCheck,
                                     rateLimitResetTime = resetTime rateLimitCheck,
                                     sandbox = useSandbox config,
                                     datesAdjusted = adjusted adjustment,
                                     adjustedDateRange =
                                       (if adjusted adjustment
                                        then Some \<lparr> originalStart = startDate req,
                                                    originalEnd = endDate req,
                                                    adjustedStart = formattedStart,
                                                    adjustedEnd = formattedEnd \<rparr>
                                        else None),
                                     availableDataRange =
                                       (if useSandbox config \<and> dataRange \<noteq> None
                                        then Some (map_option range_systemTime (egvs_start_of dataRange),
                                                   map_option range_systemTime (egvs_end_of dataRange))
                                        else None) \<rparr>,
                               recordHealthMetric env now ''dexcom_glucose_fetch'' True (Some 0) None w2))))
      | _ \<Rightarrow> (Inl (JsError ''RangeError: Invalid time value''), w))"

text \<open>Lines 792 to 801: in sandbox mode the available data range is asked for first.\<close>

definition sandbox_data_range ::
  "env \<Rightarrow> dexcom_tokens \<Rightarrow> world \<Rightarrow> dexcom_data_range option \<times> world" where
  "sandbox_data_range env tokens w =
     (if useSandbox (dexcomConfig env)
      then getDexcomDataRange env (accessToken tokens)
             (getDexcomBaseUrl (useSandbox (dexcomConfig env))) w
      else (None, w))"

text \<open>Lines 777 to 1035: the body of the try block.\<close>

definition fetch_body ::
  "env \<Rightarrow> int \<Rightarrow> string \<Rightarrow> dexcom_tokens \<Rightarrow> rate_limit_result \<Rightarrow> fetch_request \<Rightarrow> world
     \<Rightarrow> (func_error + fetch_response) \<times> world" where
  "fetch_body env now uid tokens rateLimitCheck req w =
     (let ranged = sandbox_data_range env tokens w;
          dataRange = fst ranged;
          parsed = requested_window (Date_parse env) now (startDate req) (endDate req)
      in case validate_window (fst parsed) (snd parsed) (snd ranged) of
           (Inl e, w1) \<Rightarrow> (Inl e, w1)
         | (Inr (s, e), w1) \<Rightarrow>
             (case final_window env now dataRange s e of
                Inl err \<Rightarrow> (Inl err, w1)
              | Inr adjustment \<Rightarrow>
                  fetch_and_store env now uid tokens rateLimitCheck req dataRange adjustment w1))"

text \<open>Lines 1036 to 1049: the catch block of the handler.\<close>

definition fetch_catch :: "env \<Rightarrow> int \<Rightarrow> func_error \<Rightarrow> world \<Rightarrow> func_error \<times> world" where
  "fetch_catch env now err w =
     (let w1 = console_error ''Error fetching Dexcom glucose data:'' w in
      case err of
        HttpsError code msg \<Rightarrow> (HttpsError code msg, w1)
      | JsError msg \<Rightarrow>
          (HttpsError ''internal'' ''Failed to fetch glucose data'',
           recordHealthMetric env now ''dexcom_glucose_fetch'' False (Some 0) (Some msg) w1))"

text \<open>The handler. \<open>auth\<close> is \<open>context.auth?.uid\<close>.\<close>

definition dexcomFetchGlucoseData ::
  "env \<Rightarrow> int \<Rightarrow> fetch_request \<Rightarrow> string option \<Rightarrow> world
     \<Rightarrow> (func_error + fetch_response) \<times> world" where
  "dexcomFetchGlucoseData env now req auth w =
     (case auth of
        None \<Rightarrow> (Inl (HttpsError ''unauthenticated'' ''User must be authenticated''), w)
      | Some uid \<Rightarrow>
          (case getUserTokens env uid w of
             (None, w1) \<Rightarrow>
               (Inl (HttpsError ''not-found''
                       ''No Dexcom tokens found. Please connect to Dexcom first.''), w1)
           | (Some tokens, w1) \<Rightarrow>
               (case checkRateLimit DEXCOM_API_CONFIG (rate_txn_fails env uid) now w1 of
                  (rateLimitCheck, w2) \<Rightarrow>
                    if \<not> allowed rateLimitCheck
                    then (Inl (HttpsError ''resource-exhausted''
                                 ''API rate limit exceeded. Please try again later.''),
                          recordHealthMetric env now ''dexcom_glucose_fetch'' False (Some 0)
                            (Some ''Rate limit exceeded'') w2)
                    else
                      (case refresh_if_expiring env now uid tokens w2 of
                         (Inl e, w3) \<Rightarrow> (Inl e, w3)
                       | (Inr fresh, w3) \<Rightarrow>
                           (case fetch_body env now uid fresh rateLimitCheck req w3 of
                              (Inl e, w4) \<Rightarrow>
                                (case fetch_catch env now e w4 of (e', w5) \<Rightarrow> (Inl e', w5))
                            | (Inr r, w4) \<Rightarrow> (Inr r, w4))))))"

section \<open>Scheduled sweep (scheduledGlucoseDataPull)\<close>

text \<open>Lines 1092 to 1152: the body of the try block of one user's task.\<close>

definition pull_user_body :: "env \<Rightarrow> int \<Rightarrow> dexcom_tokens \<Rightarrow> world \<Rightarrow> (func_error + unit) \<times> world" where
  "pull_user_body env now tokens w =
     (let uid = userId tokens in
      case checkRateLimit DEXCOM_API_CONFIG (rate_txn_fails env uid) now w of
        (rateLimitCheck, w1) \<Rightarrow>
          if \<not> allowed rateLimitCheck then (Inr (), w1)
          else
            (case refresh_if_expiring env now uid tokens w1 of
               (Inl e, w2) \<Rightarrow> (Inl e, w2)
             | (Inr currentTokens, w2) \<Rightarrow>
                 (let baseUrl = getDexcomBaseUrl (useSandbox (dexcomConfig env));
                      start_param = formatDate env (now - 60 * 60 * 1000);
                      end_param = formatDate env now;
                      w3 = send_vendor
                             (EgvsCall baseUrl (accessToken currentTokens) start_param end_param) w2
                  in case egvs_endpoint env (accessToken currentTokens) start_param end_param of
                       NetworkError \<Rightarrow> (Inl (JsError ''fetch failed''), w3)
                     | Response status body parsed \<Rightarrow>
                         if response_ok status
                         then (case parsed of
                                 None \<Rightarrow> (Inl (JsError ''response is not JSON''), w3)
                               | Some responseData \<Rightarrow>
                                   if readings_of responseData \<noteq> []
                                   then storeGlucoseReadings env now uid (readings_of responseData) w3
                                   else (Inr (), w3))
                         else (Inr (),
                               console_error (''Failed to fetch data for user '' @ uid @ '':'') w3))))"

text \<open>One user's task with its catch block (lines 1087 to 1156): it never throws.\<close>

definition pull_user :: "env \<Rightarrow> int \<Rightarrow> dexcom_tokens \<Rightarrow> world \<Rightarrow> world" where
  "pull_user env now tokens w =
     (case pull_user_body env now tokens w of
        (Inl e, w1) \<Rightarrow> console_error (''Error pulling data for user '' @ userId tokens @ '':'') w1
      | (Inr u, w1) \<Rightarrow> w1)"


section \<open>Scenario drivers\<close>

definition empty_world :: world where
  "empty_world =
     \<lparr> dexcomTokens = [], glucoseReadings = Map.empty, rateLimits = None,
       healthMetrics = [], vendorCalls = [], errorLog = [] \<rparr>"

text \<open>Successive calls of \<open>checkRateLimit\<close> at the given instants, each on the ledger the
  previous one left; the list of their \<open>allowed\<close> answers.\<close>

fun admit_sequence :: "dexcom_api_config \<Rightarrow> int list \<Rightarrow> world \<Rightarrow> bool list" where
  "admit_sequence cfg [] w = []"
| "admit_sequence cfg (t # ts) w =
     (case checkRateLimit cfg False t w of (r, w') \<Rightarrow> allowed r # admit_sequence cfg ts w')"

text \<open>A sandbox data range whose EGV bounds are the strings A and B, and a date parser
  that reads them as the instants 100000000 and 200000000.\<close>

definition sample_range :: "dexcom_data_range option" where
  "sample_range =
     Some \<lparr> egvs = Some \<lparr> range_start = Some \<lparr> range_systemTime = ''A'', range_displayTime = ''A'' \<rparr>,
                           range_end = Some \<lparr> range_systemTime = ''B'', range_displayTime = ''B'' \<rparr> \<rparr>,
            calibrations = None, events = None \<rparr>"

definition sample_parse :: "string \<Rightarrow> int option" where
  "sample_parse x = (if x = ''A'' then Some 100000000 else if x = ''B'' then Some 200000000 else None)"


text \<open>A state token as \<open>generateSecureState\<close> issues it for the user alice at the instant
  1700000000000 with the nonce bytes 0 to 15, and an environment whose coding of the
  state knows that one token. In this environment no storage operation fails and the
  vendor answers every request with success.\<close>

definition sample_token :: string where
  "sample_token =
     ''eyJ1c2VySWQiOiJhbGljZSIsInRpbWVzdGFtcCI6MTcwMDAwMDAwMDAwMCwibm9uY2UiOiIwMDAxMDIwMzA0MDUwNjA3MDgwOTBhMGIwYzBkMGUwZiJ9''"

definition sample_state :: json where
  "sample_state =
     JObj [(''userId'', JStr ''alice''), (''timestamp'', JNum 1700000000000),
           (''nonce'', JStr ''000102030405060708090a0b0c0d0e0f'')]"

definition sample_nonce :: "8 word list" where
  "sample_nonce = [0, 1, 2, 3, 4, 5, 6, 7, 8, 9, 10, 11, 12, 13, 14, 15]"

definition sample_reading :: "string \<Rightarrow> real \<Rightarrow> string \<Rightarrow> dexcom_glucose_reading" where
  "sample_reading t v tr =
     \<lparr> systemTime = t, displayTime = t, reading_value = v, trend = tr, trendRate = NumNull \<rparr>"

definition sample_env :: env where
  "sample_env =
     \<lparr> dexcomConfig =
         \<lparr> clientId = Some ''client'', clientSecret = Some ''secret'',
           redirectUri = Some ''https://functions.test/callback'', useSandbox = False,
           frontendUrl = ''https://front.test'' \<rparr>,
       Date_parse = sample_parse,
       formatDate = Number_toString,
       encodeURIComponent = (\<lambda>s. s),
       state_encode = (\<lambda>j. sample_token),
       state_decode = (\<lambda>s. if s = sample_token then Some sample_state else None),
       number_conv = (\<lambda>v. None),
       tokens_get_fails = (\<lambda>u. False),
       tokens_set_fails = (\<lambda>u. False),
       tokens_list_fails = False,
       rate_txn_fails = (\<lambda>u. False),
       readings_commit_fails = (\<lambda>u. False),
       metric_add_fails = False,
       token_endpoint =
         (\<lambda>g. Response 200 []
                (Some \<lparr> access_token = ''access-2'', refresh_token = ''refresh-2'', expires_in = 7200 \<rparr>)),
       dataRange_endpoint = (\<lambda>t. Response 200 [] sample_range),
       egvs_endpoint =
         (\<lambda>t a b. Response 200 []
                (Some \<lparr> resp_records = Some [sample_reading ''A'' 120 ''flat''], resp_egvs = None \<rparr>)) \<rparr>"

text \<open>A state with the credential record of alice, whose access token expires two hours
  after the instant 1700000000000, and the state the rate limiter leaves when it admits a
  first call at that instant.\<close>

definition sample_tokens :: dexcom_tokens where
  "sample_tokens =
     \<lparr> userId = ''alice'', accessToken = ''access-1'', refreshToken = ''refresh-1'',
       expiresAt = 1700007200000, refreshTokenCreatedAt = 1690000000000,
       lastRefresh = Some 1690000000000, createdAt = WrittenAt 1690000000000,
       updatedAt = WrittenAt 1690000000000 \<rparr>"

definition sample_world :: world where
  "sample_world = empty_world\<lparr>dexcomTokens := [(''alice'', sample_tokens)]\<rparr>"

definition sample_world_charged :: world where
  "sample_world_charged =
     sample_world\<lparr>rateLimits :=
       Some \<lparr> calls = Some [1700000000000], lastReset = 1700000000000, lastCall = 1700000000000 \<rparr>\<rparr>"

definition sample_admitted :: rate_limit_result where
  "sample_admitted = \<lparr> allowed = True, remaining = 60000, resetTime = 1700003600000 \<rparr>"

text \<open>Observations of a run: the refresh exchanges among the requests sent to
  the vendor, the rule of the specification for when a refresh is due (now at or past the
  expiry, or within 30 minutes of it), and the request a refresh of a record sends.\<close>

fun is_refresh_call :: "vendor_call \<Rightarrow> bool" where
  "is_refresh_call (TokenCall url (RefreshGrant rt)) = True"
| "is_refresh_call c = False"

definition refresh_calls :: "world \<Rightarrow> vendor_call list" where
  "refresh_calls w = filter is_refresh_call (vendorCalls w)"

definition refresh_due :: "int \<Rightarrow> dexcom_tokens \<Rightarrow> bool" where
  "refresh_due now tokens = (now \<ge> expiresAt tokens \<or> now + 30 * 60 * 1000 \<ge> expiresAt tokens)"

definition refresh_request :: "env \<Rightarrow> dexcom_tokens \<Rightarrow> vendor_call" where
  "refresh_request env tokens =
     TokenCall (getDexcomBaseUrl (useSandbox (dexcomConfig env)) @ ''/v2/oauth2/token'')
       (RefreshGrant (refreshToken tokens))"


text \<open>The query of a callback that carries a code and the sample state token.\<close>

definition sample_query :: callback_query where
  "sample_query = \<lparr> q_code = Some ''code-1'', q_state = Some sample_token, q_error = None \<rparr>"


text \<open>Observations of the reading store. A store is keyed by identity when
  every document sits under the identifier made from its own \<open>userId\<close> and \<open>systemTime\<close>
  fields; \<open>records_of\<close> are the identifiers of the documents that hold a given user and
  instant; \<open>store_calls\<close> runs a sequence of calls of \<open>storeGlucoseReadings\<close>, each with its
  own environment, instant, user and readings (a call that throws leaves the store as it
  was); a write is well keyed when its identifier is the one made from its fields.\<close>

definition keyed_by_identity :: "(string \<rightharpoonup> fs_doc) \<Rightarrow> bool" where
  "keyed_by_identity store =
     (\<forall>d doc. store d = Some doc \<longrightarrow>
        (\<exists>u t. doc ''userId'' = Some (FString u) \<and> doc ''systemTime'' = Some (FTimestamp t)
               \<and> d = docId_of u (Some t)))"

definition records_of :: "(string \<rightharpoonup> fs_doc) \<Rightarrow> string \<Rightarrow> int \<Rightarrow> string set" where
  "records_of store u t =
     {d. \<exists>doc. store d = Some doc \<and> doc ''userId'' = Some (FString u)
               \<and> doc ''systemTime'' = Some (FTimestamp t)}"

fun store_calls ::
  "(env \<times> int \<times> string \<times> dexcom_glucose_reading list) list \<Rightarrow> world \<Rightarrow> world" where
  "store_calls [] w = w"
| "store_calls ((env, now, uid, readings) # rest) w =
     store_calls rest (snd (storeGlucoseReadings env now uid readings w))"

definition well_keyed :: "string \<times> fs_doc \<Rightarrow> bool" where
  "well_keyed wr =
     (\<exists>u t. snd wr ''userId'' = Some (FString u) \<and> snd wr ''systemTime'' = Some (FTimestamp t)
            \<and> fst wr = docId_of u (Some t))"







subsection \<open>A state token codec\<close>

text \<open>\<open>JSON.stringify\<close> with the base64 coding, and the decoding with \<open>JSON.parse\<close>, give back
  the value that was coded. The environment \<open>codec_env\<close> has a codec with that law: a
  tagged prefix code. A number is its binary digits, lowest first, closed by a semicolon;
  a string is its length and its characters; an array or an object is its length and its
  members. \<open>read_json\<close> reads one value off the front of a string, to a nesting depth
  bounded by its first argument; \<open>token_decode\<close> wants the whole string to be one value.\<close>

fun nat_bits :: "nat \<Rightarrow> string" where
  "nat_bits n = (if n = 0 then [] else (if even n then CHR ''0'' else CHR ''1'') # nat_bits (n div 2))"

declare nat_bits.simps [simp del]

fun bits_nat :: "string \<Rightarrow> nat" where
  "bits_nat [] = 0"
| "bits_nat (c # cs) = (if c = CHR ''1'' then 1 else 0) + 2 * bits_nat cs"

definition enc_nat :: "nat \<Rightarrow> string" where
  "enc_nat n = nat_bits n @ '';''"

definition read_nat :: "string \<Rightarrow> nat \<times> string" where
  "read_nat s = (bits_nat (takeWhile (\<lambda>c. c \<noteq> CHR '';'') s), drop 1 (dropWhile (\<lambda>c. c \<noteq> CHR '';'') s))"

definition enc_str :: "string \<Rightarrow> string" where
  "enc_str s = enc_nat (length s) @ s"

definition read_str :: "string \<Rightarrow> (string \<times> string) option" where
  "read_str s = (case read_nat s of (n, r) \<Rightarrow> if length r < n then None else Some (take n r, drop n r))"

fun token_chars :: "json \<Rightarrow> string" where
  "token_chars JNull = ''n''"
| "token_chars (JBool b) = (if b then ''t'' else ''f'')"
| "token_chars (JNum i) = (if i < 0 then CHR ''m'' else CHR ''p'') # enc_nat (nat \<bar>i\<bar>)"
| "token_chars (JStr s) = CHR ''s'' # enc_str s"
| "token_chars (JArr xs) = CHR ''a'' # enc_nat (length xs) @ concat (map token_chars xs)"
| "token_chars (JObj ps) =
     CHR ''o'' # enc_nat (length ps) @ concat (map (\<lambda>p. enc_str (fst p) @ token_chars (snd p)) ps)"

fun read_many :: "(string \<Rightarrow> ('a \<times> string) option) \<Rightarrow> nat \<Rightarrow> string \<Rightarrow> ('a list \<times> string) option" where
  "read_many p 0 s = Some ([], s)"
| "read_many p (Suc k) s =
     (case p s of
        None \<Rightarrow> None
      | Some (x, r) \<Rightarrow>
          (case read_many p k r of None \<Rightarrow> None | Some (xs, r') \<Rightarrow> Some (x # xs, r')))"

definition read_prop :: "(string \<Rightarrow> (json \<times> string) option) \<Rightarrow> string \<Rightarrow> ((string \<times> json) \<times> string) option" where
  "read_prop p s =
     (case read_str s of
        None \<Rightarrow> None
      | Some (key, r) \<Rightarrow> (case p r of None \<Rightarrow> None | Some (v, r') \<Rightarrow> Some ((key, v), r')))"

primrec read_json :: "nat \<Rightarrow> string \<Rightarrow> (json \<times> string) option" where
  "read_json 0 = (\<lambda>s. None)"
| "read_json (Suc f) = (\<lambda>s.
     case s of
       [] \<Rightarrow> None
     | c # r \<Rightarrow>
         if c = CHR ''n'' then Some (JNull, r)
         else if c = CHR ''t'' then Some (JBool True, r)
         else if c = CHR ''f'' then Some (JBool False, r)
         else if c = CHR ''p'' then (case read_nat r of (n, r') \<Rightarrow> Some (JNum (int n), r'))
         else if c = CHR ''m'' then (case read_nat r of (n, r') \<Rightarrow> Some (JNum (- int n), r'))
         else if c = CHR ''s'' then
           (case read_str r of None \<Rightarrow> None | Some (x, r') \<Rightarrow> Some (JStr x, r'))
         else if c = CHR ''a'' then
           (case read_nat r of (k, r') \<Rightarrow>
              (case read_many (read_json f) k r' of
                 None \<Rightarrow> None
               | Some (xs, r'') \<Rightarrow> Some (JArr xs, r'')))
         else if c = CHR ''o'' then
           (case read_nat r of (k, r') \<Rightarrow>
              (case read_many (read_prop (read_json f)) k r' of
                 None \<Rightarrow> None
               | Some (ps, r'') \<Rightarrow> Some (JObj ps, r'')))
         else None)"

definition token_encode :: "json \<Rightarrow> string" where
  "token_encode j = token_chars j"

definition token_decode :: "string \<Rightarrow> json option" where
  "token_decode s =
     (case read_json (length s) s of
        None \<Rightarrow> None
      | Some (j, r) \<Rightarrow> if r = [] then Some j else None)"

definition codec_env :: env where
  "codec_env = sample_env\<lparr>state_encode := token_encode, state_decode := token_decode\<rparr>"
section \<open>The rate limiter\<close>

lemma ledger_calls_written [simp]:
  "ledger_calls (w\<lparr>rateLimits := Some \<lparr> calls = Some cs, lastReset = a, lastCall = b \<rparr>\<rparr>) = cs"
  by (simp add: ledger_calls_def)

text \<open>
  Claim C1. When the transaction runs, \<open>checkRateLimit\<close> admits the call exactly when
  fewer recorded timestamps than the ceiling are strictly newer than \<open>now\<close> minus the
  window. An admitted call leaves the ledger holding those fresh timestamps followed by
  \<open>now\<close>; a denied call leaves the whole state as it was. With ceiling 3 and a window of
  1000 ms, calls at 0, 100 and 200 on an empty ledger are admitted, a fourth at 300 is
  denied and a fifth at 1100 is admitted.
\<close>

theorem checkRateLimit_rolling_window:
  "(allowed (fst (checkRateLimit cfg False now w)) =
      (int (length (filter (\<lambda>t. t > now - RATE_LIMIT_WINDOW_MS cfg) (ledger_calls w)))
         < RATE_LIMIT_MAX_CALLS cfg))
   \<and> (allowed (fst (checkRateLimit cfg False now w)) \<longrightarrow>
        snd (checkRateLimit cfg False now w) =
          w\<lparr>rateLimits :=
               Some \<lparr> calls = Some (filter (\<lambda>t. t > now - RATE_LIMIT_WINDOW_MS cfg) (ledger_calls w) @ [now]),
                      lastReset = now, lastCall = now \<rparr>\<rparr>)
   \<and> (\<not> allowed (fst (checkRateLimit cfg False now w)) \<longrightarrow>
        snd (checkRateLimit cfg False now w) = w)
   \<and> (ledger_calls w = [] \<and> RATE_LIMIT_MAX_CALLS cfg = 3 \<and> RATE_LIMIT_WINDOW_MS cfg = 1000 \<longrightarrow>
        admit_sequence cfg [0, 100, 200, 300, 1100] w = [True, True, True, False, True])"
  by (simp add: checkRateLimit_def Let_def)

theorem checkRateLimit_rolling_window_witness:
  "admit_sequence (DEXCOM_API_CONFIG\<lparr>RATE_LIMIT_MAX_CALLS := 3, RATE_LIMIT_WINDOW_MS := 1000\<rparr>)
      [0, 100, 200, 300, 1100] empty_world = [True, True, True, False, True]
   \<and> allowed (fst (checkRateLimit
        (DEXCOM_API_CONFIG\<lparr>RATE_LIMIT_MAX_CALLS := 3, RATE_LIMIT_WINDOW_MS := 1000\<rparr>) False 0 empty_world))"
  using checkRateLimit_rolling_window
    [of "DEXCOM_API_CONFIG\<lparr>RATE_LIMIT_MAX_CALLS := 3, RATE_LIMIT_WINDOW_MS := 1000\<rparr>" 0 empty_world]
  by (simp add: ledger_calls_def empty_world_def)

text \<open>
  Claim C8. When the rate-limit transaction itself throws, \<open>checkRateLimit\<close> fails open:
  it answers \<open>allowed = true\<close> with \<open>remaining\<close> the full ceiling and \<open>resetTime\<close> the
  instant plus the window, writes nothing to the ledger and only logs the error. With the
  constants of the source the answer is 60000 remaining and a reset one hour later.
\<close>

theorem checkRateLimit_fails_open:
  "checkRateLimit cfg True now w =
     (\<lparr> allowed = True, remaining = RATE_LIMIT_MAX_CALLS cfg,
        resetTime = now + RATE_LIMIT_WINDOW_MS cfg \<rparr>,
      console_error ''Rate limit check failed:'' w)
   \<and> rateLimits (snd (checkRateLimit cfg True now w)) = rateLimits w
   \<and> fst (checkRateLimit DEXCOM_API_CONFIG True now w) =
       \<lparr> allowed = True, remaining = 60000, resetTime = now + 3600000 \<rparr>"
  by (simp add: checkRateLimit_def console_error_def DEXCOM_API_CONFIG_def)

section \<open>The reading store\<close>

lemma digit_char_inj:
  assumes "d < 10" "d' < 10" "digit_char d = digit_char d'"
  shows "d = d'"
proof -
  have "distinct ''0123456789''" by simp
  moreover have "d < length ''0123456789''" "d' < length ''0123456789''" using assms by simp_all
  ultimately show ?thesis
    using assms(3) unfolding digit_char_def by (simp only: nth_eq_iff_index_eq)
qed

lemma digit_char_in:
  assumes "d < 10"
  shows "digit_char d \<in> set ''0123456789''"
proof -
  have "d < length ''0123456789''" using assms by simp
  then show ?thesis unfolding digit_char_def by (rule nth_mem)
qed

lemma decimal_nonempty: "decimal n \<noteq> []"
  by (subst decimal.simps) simp

lemma decimal_chars: "set (decimal n) \<subseteq> set ''0123456789''"
proof (induction n rule: decimal.induct)
  case (1 n)
  show ?case
  proof (cases "n < 10")
    case True
    then show ?thesis
      using digit_char_in [of n] by (subst decimal.simps) simp
  next
    case False
    have "n mod 10 < 10" by simp
    then have "digit_char (n mod 10) \<in> set ''0123456789''" by (rule digit_char_in)
    with False 1 show ?thesis by (subst decimal.simps) simp
  qed
qed

lemma decimal_inj: "decimal m = decimal n \<Longrightarrow> m = n"
proof (induction m arbitrary: n rule: decimal.induct)
  case (1 m)
  show ?case
  proof (cases "m < 10")
    case m: True
    show ?thesis
    proof (cases "n < 10")
      case True
      with m 1(2) show ?thesis
        by (simp add: decimal.simps [of m] decimal.simps [of n] digit_char_inj)
    next
      case False
      with m 1(2) decimal_nonempty [of "n div 10"] show ?thesis
        by (simp add: decimal.simps [of m] decimal.simps [of n] Cons_eq_append_conv)
    qed
  next
    case m: False
    show ?thesis
    proof (cases "n < 10")
      case True
      with m 1(2) decimal_nonempty [of "m div 10"] show ?thesis
        by (simp add: decimal.simps [of m] decimal.simps [of n] append_eq_Cons_conv)
    next
      case False
      with m 1(2) have e: "decimal (m div 10) = decimal (n div 10)"
        and d: "digit_char (m mod 10) = digit_char (n mod 10)"
        by (simp_all add: decimal.simps [of m] decimal.simps [of n])
      from 1(1) [OF m e] have "m div 10 = n div 10" .
      moreover from d have "m mod 10 = n mod 10" by (intro digit_char_inj) simp_all
      ultimately show ?thesis by (metis div_mult_mod_eq)
    qed
  qed
qed

lemma decimal_no_underscore: "CHR ''_'' \<notin> set (decimal n)"
proof
  assume "CHR ''_'' \<in> set (decimal n)"
  then have "CHR ''_'' \<in> set ''0123456789''" using decimal_chars by blast
  then show False by simp
qed

lemma decimal_no_dash: "CHR ''-'' \<notin> set (decimal n)"
proof
  assume "CHR ''-'' \<in> set (decimal n)"
  then have "CHR ''-'' \<in> set ''0123456789''" using decimal_chars by blast
  then show False by simp
qed

lemma Number_toString_no_underscore: "CHR ''_'' \<notin> set (Number_toString i)"
  by (simp add: Number_toString_def decimal_no_underscore)

lemma decimal_not_negative: "decimal n \<noteq> CHR ''-'' # xs"
proof
  assume "decimal n = CHR ''-'' # xs"
  then have "CHR ''-'' \<in> set (decimal n)" by simp
  with decimal_no_dash show False by blast
qed

lemma Number_toString_inj:
  assumes e: "Number_toString i = Number_toString j"
  shows "i = j"
proof (cases "i < 0")
  case i: True
  show ?thesis
  proof (cases "j < 0")
    case True
    with i e have "decimal (nat (- i)) = decimal (nat (- j))" by (simp add: Number_toString_def)
    then have "nat (- i) = nat (- j)" by (rule decimal_inj)
    with i True show ?thesis by simp
  next
    case False
    with i e have "decimal (nat j) = CHR ''-'' # decimal (nat (- i))"
      by (simp add: Number_toString_def)
    with decimal_not_negative show ?thesis by blast
  qed
next
  case i: False
  show ?thesis
  proof (cases "j < 0")
    case True
    with i e have "decimal (nat i) = CHR ''-'' # decimal (nat (- j))"
      by (simp add: Number_toString_def)
    with decimal_not_negative show ?thesis by blast
  next
    case False
    with i e have "decimal (nat i) = decimal (nat j)" by (simp add: Number_toString_def)
    then have "nat i = nat j" by (rule decimal_inj)
    with i False show ?thesis by simp
  qed
qed

lemma split_at_last_underscore:
  assumes "u @ CHR ''_'' # s = u' @ CHR ''_'' # s'" "CHR ''_'' \<notin> set s" "CHR ''_'' \<notin> set s'"
  shows "u = u' \<and> s = s'"
proof -
  from assms(1) obtain xs where
    "(u = u' @ xs \<and> xs @ CHR ''_'' # s = CHR ''_'' # s') \<or> (u @ xs = u' \<and> CHR ''_'' # s = xs @ CHR ''_'' # s')"
    by (auto simp: append_eq_append_conv2)
  then show ?thesis
  proof
    assume h: "u = u' @ xs \<and> xs @ CHR ''_'' # s = CHR ''_'' # s'"
    show ?thesis
    proof (cases xs)
      case Nil
      with h show ?thesis by simp
    next
      case (Cons a as)
      with h have "s' = as @ CHR ''_'' # s" by simp
      with assms(3) show ?thesis by simp
    qed
  next
    assume h: "u @ xs = u' \<and> CHR ''_'' # s = xs @ CHR ''_'' # s'"
    show ?thesis
    proof (cases xs)
      case Nil
      with h show ?thesis by simp
    next
      case (Cons a as)
      with h have "s = as @ CHR ''_'' # s'" by simp
      with assms(2) show ?thesis by simp
    qed
  qed
qed

lemma docId_of_inj:
  assumes "docId_of u (Some t) = docId_of u' (Some t')"
  shows "u = u' \<and> t = t'"
proof -
  from assms have "u @ CHR ''_'' # Number_toString t = u' @ CHR ''_'' # Number_toString t'"
    by (simp add: docId_of_def)
  from split_at_last_underscore [OF this Number_toString_no_underscore Number_toString_no_underscore]
  show ?thesis using Number_toString_inj by blast
qed

lemma Timestamp_fromDate_Some: "Timestamp_fromDate d = Some t \<Longrightarrow> d = Some t"
  by (auto simp: Timestamp_fromDate_def split: option.splits if_splits)

lemma reading_write_well_keyed:
  assumes "reading_write parse now uid r = Some wr"
  shows "well_keyed wr"
proof -
  from assms obtain st dt tr where
    st: "Timestamp_fromDate (parse (systemTime r)) = Some st"
    and wr: "wr = (docId_of uid (parse (systemTime r)),
               map_of [(''userId'', FString uid), (''systemTime'', FTimestamp st),
                       (''displayTime'', FTimestamp dt), (''value'', FNumber (reading_value r)),
                       (''unit'', FString ''mg/dL''), (''trend'', FString (trend r)),
                       (''trendRate'', tr), (''recordedAt'', FTimestamp now)])"
    by (auto simp: reading_write_def Let_def split: option.splits)
  from st have "parse (systemTime r) = Some st" by (rule Timestamp_fromDate_Some)
  with wr show ?thesis by (simp add: well_keyed_def)
qed

lemma batch_writes_well_keyed:
  "batch_writes parse now uid rs = Some ws \<Longrightarrow> \<forall>wr \<in> set ws. well_keyed wr"
proof (induction rs arbitrary: ws)
  case Nil
  then show ?case by simp
next
  case (Cons r rs)
  then show ?case
    by (auto split: option.splits dest: reading_write_well_keyed)
qed

lemma merge_set_keyed:
  assumes "keyed_by_identity store" "well_keyed wr"
  shows "keyed_by_identity (merge_set wr store)"
proof -
  from assms(2) obtain u t where
    f: "snd wr ''userId'' = Some (FString u)" "snd wr ''systemTime'' = Some (FTimestamp t)"
      "fst wr = docId_of u (Some t)"
    unfolding well_keyed_def by blast
  show ?thesis
    unfolding keyed_by_identity_def
  proof (intro allI impI)
    fix d doc
    assume h: "merge_set wr store d = Some doc"
    show "\<exists>u t. doc ''userId'' = Some (FString u) \<and> doc ''systemTime'' = Some (FTimestamp t)
               \<and> d = docId_of u (Some t)"
    proof (cases "d = fst wr")
      case True
      with h have "doc = (case store (fst wr) of None \<Rightarrow> snd wr | Some old \<Rightarrow> old ++ snd wr)"
        by (simp add: merge_set_def)
      then have "doc ''userId'' = Some (FString u) \<and> doc ''systemTime'' = Some (FTimestamp t)"
        using f(1,2) by (simp add: map_add_def split: option.splits)
      with True f(3) show ?thesis by blast
    next
      case False
      with h have "store d = Some doc" by (simp add: merge_set_def)
      with assms(1) show ?thesis unfolding keyed_by_identity_def by blast
    qed
  qed
qed

lemma commit_batch_keyed:
  "keyed_by_identity store \<Longrightarrow> \<forall>wr \<in> set ws. well_keyed wr \<Longrightarrow>
     keyed_by_identity (commit_batch ws store)"
  unfolding commit_batch_def
  by (induction ws arbitrary: store) (simp_all add: merge_set_keyed)

lemma storeGlucoseReadings_keyed:
  assumes "keyed_by_identity (glucoseReadings w)"
  shows "keyed_by_identity (glucoseReadings (snd (storeGlucoseReadings env now uid rs w)))"
proof (cases "batch_writes (Date_parse env) now uid rs")
  case None
  with assms show ?thesis by (simp add: storeGlucoseReadings_def console_error_def)
next
  case (Some ws)
  from batch_writes_well_keyed [OF Some] assms
  have "keyed_by_identity (commit_batch ws (glucoseReadings w))" by (intro commit_batch_keyed)
  with assms Some show ?thesis by (simp add: storeGlucoseReadings_def console_error_def)
qed

lemma store_calls_keyed:
  "keyed_by_identity (glucoseReadings w) \<Longrightarrow> keyed_by_identity (glucoseReadings (store_calls cs w))"
proof (induction cs arbitrary: w)
  case Nil
  then show ?case by simp
next
  case (Cons c cs)
  obtain env now uid rs where c: "c = (env, now, uid, rs)" by (cases c)
  from Cons show ?case by (simp add: c storeGlucoseReadings_keyed)
qed

lemma keyed_records_of:
  assumes "keyed_by_identity store"
  shows "records_of store u t \<subseteq> {docId_of u (Some t)}"
proof
  fix d assume "d \<in> records_of store u t"
  then obtain doc where d: "store d = Some doc" "doc ''userId'' = Some (FString u)"
      "doc ''systemTime'' = Some (FTimestamp t)"
    unfolding records_of_def by blast
  from assms d(1) obtain u' t' where
    "doc ''userId'' = Some (FString u')" "doc ''systemTime'' = Some (FTimestamp t')"
    "d = docId_of u' (Some t')"
    unfolding keyed_by_identity_def by blast
  with d(2,3) show "d \<in> {docId_of u (Some t)}" by simp
qed


lemma store_single:
  assumes st: "Timestamp_fromDate (Date_parse env (systemTime r)) = Some t"
    and dt: "Timestamp_fromDate (Date_parse env (displayTime r)) = Some d"
    and tr: "trendRate_value (trendRate r) = Some v"
    and ok: "\<not> readings_commit_fails env uid"
  shows "storeGlucoseReadings env now uid [r] w =
     (Inr (), w\<lparr>glucoseReadings :=
        merge_set (docId_of uid (Some t),
                   map_of [(''userId'', FString uid), (''systemTime'', FTimestamp t),
                           (''displayTime'', FTimestamp d), (''value'', FNumber (reading_value r)),
                           (''unit'', FString ''mg/dL''), (''trend'', FString (trend r)),
                           (''trendRate'', v), (''recordedAt'', FTimestamp now)])
          (glucoseReadings w)\<rparr>)"
proof -
  from st have p: "Date_parse env (systemTime r) = Some t" by (rule Timestamp_fromDate_Some)
  have "reading_write (Date_parse env) now uid r =
      Some (docId_of uid (Some t),
            map_of [(''userId'', FString uid), (''systemTime'', FTimestamp t),
                    (''displayTime'', FTimestamp d), (''value'', FNumber (reading_value r)),
                    (''unit'', FString ''mg/dL''), (''trend'', FString (trend r)),
                    (''trendRate'', v), (''recordedAt'', FTimestamp now)])"
    using st dt tr by (simp add: reading_write_def p Let_def)
  then show ?thesis
    using ok by (simp add: storeGlucoseReadings_def commit_batch_def)
qed

lemma trendRate_defined:
  "trendRate r \<noteq> NumUndefined \<Longrightarrow> \<exists>v. trendRate_value (trendRate r) = Some v"
  by (cases "trendRate r") (simp_all add: trendRate_value_def)

lemma merge_set_at:
  "merge_set (d, doc) store d = Some (case store d of None \<Rightarrow> doc | Some old \<Rightarrow> old ++ doc)"
  by (simp add: merge_set_def split: option.splits)

lemma dom_merge_set: "dom (merge_set (d, doc) store) = insert d (dom store)"
  by (auto simp: merge_set_def)

lemma store_twice:
  assumes inv: "keyed_by_identity (glucoseReadings w)"
    and st: "Timestamp_fromDate (Date_parse env (systemTime r1)) = Some t"
      "Timestamp_fromDate (Date_parse env (systemTime r2)) = Some t"
    and dt: "Timestamp_fromDate (Date_parse env (displayTime r1)) = Some d1"
      "Timestamp_fromDate (Date_parse env (displayTime r2)) = Some d2"
    and tr: "trendRate r1 \<noteq> NumUndefined" "trendRate r2 \<noteq> NumUndefined"
    and ok: "\<not> readings_commit_fails env uid"
  shows "records_of (glucoseReadings (snd (storeGlucoseReadings env now2 uid [r2]
             (snd (storeGlucoseReadings env now1 uid [r1] w))))) uid t = {docId_of uid (Some t)}
       \<and> dom (glucoseReadings (snd (storeGlucoseReadings env now2 uid [r2]
             (snd (storeGlucoseReadings env now1 uid [r1] w))))) =
           insert (docId_of uid (Some t)) (dom (glucoseReadings w))
       \<and> (\<exists>doc. glucoseReadings (snd (storeGlucoseReadings env now2 uid [r2]
             (snd (storeGlucoseReadings env now1 uid [r1] w)))) (docId_of uid (Some t)) = Some doc
            \<and> doc ''userId'' = Some (FString uid)
            \<and> doc ''systemTime'' = Some (FTimestamp t)
            \<and> doc ''displayTime'' = Some (FTimestamp d2)
            \<and> doc ''value'' = Some (FNumber (reading_value r2))
            \<and> doc ''unit'' = Some (FString ''mg/dL'')
            \<and> doc ''trend'' = Some (FString (trend r2))
            \<and> doc ''trendRate'' = trendRate_value (trendRate r2)
            \<and> doc ''recordedAt'' = Some (FTimestamp now2))"
proof -
  let ?w2 = "snd (storeGlucoseReadings env now2 uid [r2] (snd (storeGlucoseReadings env now1 uid [r1] w)))"
  let ?d = "docId_of uid (Some t)"
  from tr obtain v1 v2 where v: "trendRate_value (trendRate r1) = Some v1"
      "trendRate_value (trendRate r2) = Some v2"
    using trendRate_defined by blast
  let ?doc1 = "map_of [(''userId'', FString uid), (''systemTime'', FTimestamp t),
                           (''displayTime'', FTimestamp d1), (''value'', FNumber (reading_value r1)),
                           (''unit'', FString ''mg/dL''), (''trend'', FString (trend r1)),
                           (''trendRate'', v1), (''recordedAt'', FTimestamp now1)]"
  let ?doc2 = "map_of [(''userId'', FString uid), (''systemTime'', FTimestamp t),
                           (''displayTime'', FTimestamp d2), (''value'', FNumber (reading_value r2)),
                           (''unit'', FString ''mg/dL''), (''trend'', FString (trend r2)),
                           (''trendRate'', v2), (''recordedAt'', FTimestamp now2)]"
  define s1 where "s1 = merge_set (?d, ?doc1) (glucoseReadings w)"
  have s: "glucoseReadings ?w2 = merge_set (?d, ?doc2) s1"
    by (simp add: s1_def store_single [OF st(1) dt(1) v(1) ok] store_single [OF st(2) dt(2) v(2) ok])
  obtain old1 where o: "s1 ?d = Some old1"
    by (simp add: s1_def merge_set_at)
  have at: "glucoseReadings ?w2 ?d = Some (old1 ++ ?doc2)"
    by (simp add: s merge_set_at o)
  have dom: "dom (glucoseReadings ?w2) = insert ?d (dom (glucoseReadings w))"
    by (simp add: s s1_def dom_merge_set)
  have fields: "\<exists>doc. glucoseReadings ?w2 ?d = Some doc
            \<and> doc ''userId'' = Some (FString uid)
            \<and> doc ''systemTime'' = Some (FTimestamp t)
            \<and> doc ''displayTime'' = Some (FTimestamp d2)
            \<and> doc ''value'' = Some (FNumber (reading_value r2))
            \<and> doc ''unit'' = Some (FString ''mg/dL'')
            \<and> doc ''trend'' = Some (FString (trend r2))
            \<and> doc ''trendRate'' = trendRate_value (trendRate r2)
            \<and> doc ''recordedAt'' = Some (FTimestamp now2)"
    unfolding at by (simp add: map_add_def v)
  have inv2: "keyed_by_identity (glucoseReadings ?w2)"
    by (intro storeGlucoseReadings_keyed inv)
  have "?d \<in> records_of (glucoseReadings ?w2) uid t"
    using fields unfolding records_of_def by blast
  with keyed_records_of [OF inv2, of uid t]
  have rec: "records_of (glucoseReadings ?w2) uid t = {?d}" by blast
  from rec dom fields show ?thesis by blast
qed

text \<open>
  Claim C2. Starting from a store keyed by identity (the empty store is), after any
  sequence of calls of \<open>storeGlucoseReadings\<close> the store is still keyed by identity, so the
  documents that hold a given user and instant are at most the one under the identifier
  made from them; two different pairs of user and instant never share an identifier.
  Storing a reading and then a second reading of the same user and instant (both
  storable, the commits succeeding), whatever the value and the trend of the second,
  leaves exactly one document for that user and instant, adds no other document, and the
  fields of that document are those of the second write.
\<close>

theorem storeGlucoseReadings_one_record_per_instant:
  "(keyed_by_identity (glucoseReadings w) \<longrightarrow>
      keyed_by_identity (glucoseReadings (store_calls cs w))
      \<and> records_of (glucoseReadings (store_calls cs w)) u t \<subseteq> {docId_of u (Some t)})
   \<and> records_of (glucoseReadings (store_calls cs empty_world)) u t \<subseteq> {docId_of u (Some t)}
   \<and> (docId_of u (Some t) = docId_of u' (Some t') \<longrightarrow> u = u' \<and> t = t')
   \<and> (keyed_by_identity (glucoseReadings w)
       \<and> Timestamp_fromDate (Date_parse env (systemTime r1)) = Some t
       \<and> Timestamp_fromDate (Date_parse env (systemTime r2)) = Some t
       \<and> Timestamp_fromDate (Date_parse env (displayTime r1)) = Some d1
       \<and> Timestamp_fromDate (Date_parse env (displayTime r2)) = Some d2
       \<and> trendRate r1 \<noteq> NumUndefined \<and> trendRate r2 \<noteq> NumUndefined
       \<and> \<not> readings_commit_fails env uid \<longrightarrow>
      records_of (glucoseReadings (snd (storeGlucoseReadings env now2 uid [r2]
             (snd (storeGlucoseReadings env now1 uid [r1] w))))) uid t = {docId_of uid (Some t)}
       \<and> dom (glucoseReadings (snd (storeGlucoseReadings env now2 uid [r2]
             (snd (storeGlucoseReadings env now1 uid [r1] w))))) =
           insert (docId_of uid (Some t)) (dom (glucoseReadings w))
       \<and> (\<exists>doc. glucoseReadings (snd (storeGlucoseReadings env now2 uid [r2]
             (snd (storeGlucoseReadings env now1 uid [r1] w)))) (docId_of uid (Some t)) = Some doc
            \<and> doc ''userId'' = Some (FString uid)
            \<and> doc ''systemTime'' = Some (FTimestamp t)
            \<and> doc ''displayTime'' = Some (FTimestamp d2)
            \<and> doc ''value'' = Some (FNumber (reading_value r2))
            \<and> doc ''unit'' = Some (FString ''mg/dL'')
            \<and> doc ''trend'' = Some (FString (trend r2))
            \<and> doc ''trendRate'' = trendRate_value (trendRate r2)
            \<and> doc ''recordedAt'' = Some (FTimestamp now2)))"
proof -
  have e: "keyed_by_identity (glucoseReadings empty_world)"
    by (simp add: keyed_by_identity_def empty_world_def)
  show ?thesis
    apply (intro conjI impI)
    subgoal by (rule store_calls_keyed)
    subgoal by (rule keyed_records_of, rule store_calls_keyed)
    subgoal by (rule keyed_records_of, rule store_calls_keyed, rule e)
    subgoal using docId_of_inj by blast
    subgoal using docId_of_inj by blast
    subgoal by (elim conjE, rule store_twice [THEN conjunct1])
    subgoal by (elim conjE, rule store_twice [THEN conjunct2, THEN conjunct1])
    subgoal by (elim conjE, rule store_twice [THEN conjunct2, THEN conjunct2])
    done
qed


lemma decimal_digit: "n < 10 \<Longrightarrow> decimal n = [digit_char n]"
  by (subst decimal.simps) simp

lemma decimal_more: "\<not> n < 10 \<Longrightarrow> decimal n = decimal (n div 10) @ [digit_char (n mod 10)]"
  by (subst decimal.simps) simp

lemma sample_decimal: "decimal 100000000 = ''100000000''"
  by (simp add: decimal_more decimal_digit digit_char_def)

lemma sample_docId: "docId_of ''alice'' (Some 100000000) = ''alice_100000000''"
  by (simp add: docId_of_def Number_toString_def sample_decimal)

theorem storeGlucoseReadings_one_record_per_instant_witness:
  "records_of (glucoseReadings (snd (storeGlucoseReadings sample_env 1700000900000 ''alice''
        [sample_reading ''A'' 135 ''singleUp'']
        (snd (storeGlucoseReadings sample_env 1700000000000 ''alice''
               [sample_reading ''A'' 120 ''flat''] empty_world))))) ''alice'' 100000000 =
     {''alice_100000000''}
   \<and> dom (glucoseReadings (snd (storeGlucoseReadings sample_env 1700000900000 ''alice''
        [sample_reading ''A'' 135 ''singleUp'']
        (snd (storeGlucoseReadings sample_env 1700000000000 ''alice''
               [sample_reading ''A'' 120 ''flat''] empty_world))))) = {''alice_100000000''}
   \<and> (\<exists>doc. glucoseReadings (snd (storeGlucoseReadings sample_env 1700000900000 ''alice''
        [sample_reading ''A'' 135 ''singleUp'']
        (snd (storeGlucoseReadings sample_env 1700000000000 ''alice''
               [sample_reading ''A'' 120 ''flat''] empty_world)))) ''alice_100000000'' = Some doc
        \<and> doc ''value'' = Some (FNumber 135) \<and> doc ''trend'' = Some (FString ''singleUp'')
        \<and> doc ''recordedAt'' = Some (FTimestamp 1700000900000))"
proof -
  have k: "keyed_by_identity (glucoseReadings empty_world)"
    by (simp add: keyed_by_identity_def empty_world_def)
  have p: "Timestamp_fromDate (Date_parse sample_env (systemTime (sample_reading ''A'' v tr))) = Some 100000000"
    "Timestamp_fromDate (Date_parse sample_env (displayTime (sample_reading ''A'' v tr))) = Some 100000000"
    "trendRate (sample_reading ''A'' v tr) \<noteq> NumUndefined"
    "reading_value (sample_reading ''A'' v tr) = v" "trend (sample_reading ''A'' v tr) = tr"
    for v tr
    by (simp_all add: sample_reading_def sample_env_def sample_parse_def Timestamp_fromDate_def)
  have c: "\<not> readings_commit_fails sample_env ''alice''" by (simp add: sample_env_def)
  have e: "dom (glucoseReadings empty_world) = {}" by (simp add: empty_world_def)
  note T = storeGlucoseReadings_one_record_per_instant
      [where w = empty_world and env = sample_env and uid = "''alice''" and t = 100000000
         and ?r1.0 = "sample_reading ''A'' 120 ''flat''"
         and ?r2.0 = "sample_reading ''A'' 135 ''singleUp''"
         and ?d1.0 = 100000000 and ?d2.0 = 100000000
         and ?now1.0 = 1700000000000 and ?now2.0 = 1700000900000
         and cs = "[]" and u = "''alice''" and u' = "''alice''" and t' = 100000000]
  have pre: "keyed_by_identity (glucoseReadings empty_world)
       \<and> Timestamp_fromDate (Date_parse sample_env (systemTime (sample_reading ''A'' 120 ''flat''))) = Some 100000000
       \<and> Timestamp_fromDate (Date_parse sample_env (systemTime (sample_reading ''A'' 135 ''singleUp''))) = Some 100000000
       \<and> Timestamp_fromDate (Date_parse sample_env (displayTime (sample_reading ''A'' 120 ''flat''))) = Some 100000000
       \<and> Timestamp_fromDate (Date_parse sample_env (displayTime (sample_reading ''A'' 135 ''singleUp''))) = Some 100000000
       \<and> trendRate (sample_reading ''A'' 120 ''flat'') \<noteq> NumUndefined
       \<and> trendRate (sample_reading ''A'' 135 ''singleUp'') \<noteq> NumUndefined
       \<and> \<not> readings_commit_fails sample_env ''alice''"
    using k c p(1,2,3) by blast
  note R = T [THEN conjunct2, THEN conjunct2, THEN conjunct2, THEN mp, OF pre]
  from R [THEN conjunct1] have r1: "records_of (glucoseReadings (snd (storeGlucoseReadings sample_env 1700000900000 ''alice''
        [sample_reading ''A'' 135 ''singleUp'']
        (snd (storeGlucoseReadings sample_env 1700000000000 ''alice''
               [sample_reading ''A'' 120 ''flat''] empty_world))))) ''alice'' 100000000 =
     {''alice_100000000''}"
    unfolding sample_docId .
  from R [THEN conjunct2, THEN conjunct1] have r2: "dom (glucoseReadings (snd (storeGlucoseReadings sample_env 1700000900000 ''alice''
        [sample_reading ''A'' 135 ''singleUp'']
        (snd (storeGlucoseReadings sample_env 1700000000000 ''alice''
               [sample_reading ''A'' 120 ''flat''] empty_world))))) = {''alice_100000000''}"
    unfolding sample_docId e .
  from R [THEN conjunct2, THEN conjunct2] obtain doc where
    "glucoseReadings (snd (storeGlucoseReadings sample_env 1700000900000 ''alice''
        [sample_reading ''A'' 135 ''singleUp'']
        (snd (storeGlucoseReadings sample_env 1700000000000 ''alice''
               [sample_reading ''A'' 120 ''flat''] empty_world)))) ''alice_100000000'' = Some doc"
    "doc ''value'' = Some (FNumber 135)" "doc ''trend'' = Some (FString ''singleUp'')"
    "doc ''recordedAt'' = Some (FTimestamp 1700000900000)"
    unfolding sample_docId p(4,5) by blast
  with r1 r2 show ?thesis by blast
qed

section \<open>The sandbox window\<close>

lemma adjust_numbers:
  assumes "egvs_start_of dataRange = Some rs" "egvs_end_of dataRange = Some re"
    and "parse (range_systemTime rs) = Some D1" "parse (range_systemTime re) = Some D2"
  shows "adjustDatesForSandbox parse (Some s) (Some e) dataRange True =
     (if s > D2 \<or> e < D1
      then Inr \<lparr> adj_startDate = Some (D2 - min (12 * 60 * 60 * 1000) (D2 - D1)),
                 adj_endDate = Some D2, adjusted = True \<rparr>
      else Inr \<lparr> adj_startDate = Some (max s D1), adj_endDate = Some (min e D2),
                 adjusted = (max s D1 \<noteq> s \<or> min e D2 \<noteq> e) \<rparr>)"
  using assms by (simp add: adjustDatesForSandbox_def available_date_def Let_def)

lemma window_outside_iff:
  fixes s e D1 D2 :: int
  assumes "s \<le> e" "D1 \<le> D2"
  shows "({s..e} \<inter> {D1..D2} = {}) = (s > D2 \<or> e < D1)"
  using assms by (auto simp: Int_atLeastAtMost)

lemma window_inside_iff:
  fixes s e D1 D2 :: int
  assumes "s \<le> e"
  shows "({s..e} \<subseteq> {D1..D2}) = (D1 \<le> s \<and> e \<le> D2)"
  using assms by auto

text \<open>
  Claim C3. In sandbox mode, with an available EGV range from \<open>D1\<close> to \<open>D2\<close> and a requested
  window from \<open>s\<close> to \<open>e\<close>: a window that has no instant in common with the range becomes
  the last \<open>min(12 h, D2 - D1)\<close> of the range, adjusted; a window that overlaps the range
  without lying inside it becomes its intersection with the range, adjusted (the window
  from \<open>D1 - 1 h\<close> to \<open>D1 + 1 h\<close> becomes \<open>D1\<close> to \<open>D1 + 1 h\<close> when the range reaches that
  far); a window inside the range is returned unchanged, not adjusted.
\<close>

theorem adjustDatesForSandbox_clamp:
  assumes "egvs_start_of dataRange = Some rs" "egvs_end_of dataRange = Some re"
    and "parse (range_systemTime rs) = Some D1" "parse (range_systemTime re) = Some D2"
    and "D1 \<le> D2" "s \<le> e"
  shows "({s..e} \<inter> {D1..D2} = {} \<longrightarrow>
            adjustDatesForSandbox parse (Some s) (Some e) dataRange True =
              Inr \<lparr> adj_startDate = Some (D2 - min (12 * 60 * 60 * 1000) (D2 - D1)),
                    adj_endDate = Some D2, adjusted = True \<rparr>)
       \<and> ({s..e} \<inter> {D1..D2} \<noteq> {} \<and> \<not> {s..e} \<subseteq> {D1..D2} \<longrightarrow>
            adjustDatesForSandbox parse (Some s) (Some e) dataRange True =
              Inr \<lparr> adj_startDate = Some (max s D1), adj_endDate = Some (min e D2),
                    adjusted = True \<rparr>
            \<and> {max s D1..min e D2} = {s..e} \<inter> {D1..D2})
       \<and> (D1 + 60 * 60 * 1000 \<le> D2 \<longrightarrow>
            adjustDatesForSandbox parse (Some (D1 - 60 * 60 * 1000)) (Some (D1 + 60 * 60 * 1000))
                dataRange True =
              Inr \<lparr> adj_startDate = Some D1, adj_endDate = Some (D1 + 60 * 60 * 1000),
                    adjusted = True \<rparr>)
       \<and> ({s..e} \<subseteq> {D1..D2} \<longrightarrow>
            adjustDatesForSandbox parse (Some s) (Some e) dataRange True =
              Inr \<lparr> adj_startDate = Some s, adj_endDate = Some e, adjusted = False \<rparr>)"
proof -
  note num = adjust_numbers [OF assms(1-4)]
  have outside: "({s..e} \<inter> {D1..D2} = {}) = (s > D2 \<or> e < D1)"
    by (rule window_outside_iff [OF assms(6) assms(5)])
  have inside: "({s..e} \<subseteq> {D1..D2}) = (D1 \<le> s \<and> e \<le> D2)"
    by (rule window_inside_iff [OF assms(6)])
  have inter: "{max s D1..min e D2} = {s..e} \<inter> {D1..D2}"
    by (simp add: Int_atLeastAtMost)
  have c1: "{s..e} \<inter> {D1..D2} = {} \<longrightarrow>
            adjustDatesForSandbox parse (Some s) (Some e) dataRange True =
              Inr \<lparr> adj_startDate = Some (D2 - min (12 * 60 * 60 * 1000) (D2 - D1)),
                    adj_endDate = Some D2, adjusted = True \<rparr>"
    unfolding outside num by simp
  have c2: "{s..e} \<inter> {D1..D2} \<noteq> {} \<and> \<not> {s..e} \<subseteq> {D1..D2} \<longrightarrow>
            adjustDatesForSandbox parse (Some s) (Some e) dataRange True =
              Inr \<lparr> adj_startDate = Some (max s D1), adj_endDate = Some (min e D2),
                    adjusted = True \<rparr>
            \<and> {max s D1..min e D2} = {s..e} \<inter> {D1..D2}"
  proof
    assume h: "{s..e} \<inter> {D1..D2} \<noteq> {} \<and> \<not> {s..e} \<subseteq> {D1..D2}"
    then have a: "\<not> (s > D2 \<or> e < D1)" and b: "\<not> (D1 \<le> s \<and> e \<le> D2)"
      using outside inside by blast+
    from b have "max s D1 \<noteq> s \<or> min e D2 \<noteq> e" by linarith
    with a show "adjustDatesForSandbox parse (Some s) (Some e) dataRange True =
              Inr \<lparr> adj_startDate = Some (max s D1), adj_endDate = Some (min e D2),
                    adjusted = True \<rparr>
            \<and> {max s D1..min e D2} = {s..e} \<inter> {D1..D2}"
      unfolding num using inter by simp
  qed
  have c3: "D1 + 60 * 60 * 1000 \<le> D2 \<longrightarrow>
            adjustDatesForSandbox parse (Some (D1 - 60 * 60 * 1000)) (Some (D1 + 60 * 60 * 1000))
                dataRange True =
              Inr \<lparr> adj_startDate = Some D1, adj_endDate = Some (D1 + 60 * 60 * 1000),
                    adjusted = True \<rparr>"
    unfolding adjust_numbers [OF assms(1-4)] by simp
  have c4: "{s..e} \<subseteq> {D1..D2} \<longrightarrow>
            adjustDatesForSandbox parse (Some s) (Some e) dataRange True =
              Inr \<lparr> adj_startDate = Some s, adj_endDate = Some e, adjusted = False \<rparr>"
  proof
    assume "{s..e} \<subseteq> {D1..D2}"
    then have "D1 \<le> s" "e \<le> D2" using inside by blast+
    with assms(6) show "adjustDatesForSandbox parse (Some s) (Some e) dataRange True =
              Inr \<lparr> adj_startDate = Some s, adj_endDate = Some e, adjusted = False \<rparr>"
      unfolding num by simp
  qed
  from c1 c2 c3 c4 show ?thesis by blast
qed

theorem adjustDatesForSandbox_clamp_witness:
  "adjustDatesForSandbox sample_parse (Some 96400000) (Some 103600000) sample_range True =
     Inr \<lparr> adj_startDate = Some 100000000, adj_endDate = Some 103600000, adjusted = True \<rparr>
   \<and> adjustDatesForSandbox sample_parse (Some 1000) (Some 2000) sample_range True =
     Inr \<lparr> adj_startDate = Some 156800000, adj_endDate = Some 200000000, adjusted = True \<rparr>"
proof -
  have r: "egvs_start_of sample_range = Some \<lparr> range_systemTime = ''A'', range_displayTime = ''A'' \<rparr>"
     "egvs_end_of sample_range = Some \<lparr> range_systemTime = ''B'', range_displayTime = ''B'' \<rparr>"
    by (simp_all add: sample_range_def egvs_start_of_def egvs_end_of_def)
  have p: "sample_parse (range_systemTime \<lparr> range_systemTime = ''A'', range_displayTime = ''A'' \<rparr>) = Some 100000000"
      "sample_parse (range_systemTime \<lparr> range_systemTime = ''B'', range_displayTime = ''B'' \<rparr>) = Some 200000000"
    by (simp_all add: sample_parse_def)
  show ?thesis
    using adjustDatesForSandbox_clamp [OF r p, of 1000 2000]
      adjustDatesForSandbox_clamp [OF r p, of 96400000 103600000]
    by simp
qed

section \<open>The state token\<close>

lemma toHex_nonempty: "bytes \<noteq> [] \<Longrightarrow> toHex bytes \<noteq> []"
  by (cases bytes) (simp_all add: toHex_def)

lemma validateState_decoded:
  assumes "state_decode env state = Some (JObj props)"
  shows "validateState env now state expected =
     (if \<not> js_truthy (map_of props ''userId'') \<or> \<not> js_truthy (map_of props ''timestamp'')
         \<or> \<not> js_truthy (map_of props ''nonce'')
      then \<lparr> valid = False, reason = Some ''Missing required state fields'' \<rparr>
      else if \<not> strict_equal (map_of props ''userId'') expected
      then \<lparr> valid = False, reason = Some ''User ID mismatch'' \<rparr>
      else (case ToNumber (number_conv env) (map_of props ''timestamp'') of
              None \<Rightarrow> \<lparr> valid = True, reason = None \<rparr>
            | Some ts \<Rightarrow>
                if now - ts > 60 * 60 * 1000
                then \<lparr> valid = False, reason = Some ''State parameter expired'' \<rparr>
                else \<lparr> valid = True, reason = None \<rparr>))"
  using assms by (simp add: validateState_def Let_def split: option.splits)

lemma validateState_issued:
  assumes dec: "state_decode env (generateSecureState env nonce_bytes issued u) =
            Some (JObj [(''userId'', JStr u), (''timestamp'', JNum issued),
                        (''nonce'', JStr (toHex nonce_bytes))])"
    and u: "u \<noteq> []" and t: "issued \<noteq> 0" and n: "length nonce_bytes = 16"
  shows "validateState env now (generateSecureState env nonce_bytes issued u) (JStr v) =
     (if v \<noteq> u then \<lparr> valid = False, reason = Some ''User ID mismatch'' \<rparr>
      else if now - issued > 60 * 60 * 1000
      then \<lparr> valid = False, reason = Some ''State parameter expired'' \<rparr>
      else \<lparr> valid = True, reason = None \<rparr>)"
proof -
  from n have "nonce_bytes \<noteq> []" by auto
  then have "toHex nonce_bytes \<noteq> []" by (rule toHex_nonempty)
  with u t show ?thesis
    unfolding validateState_decoded [OF dec] by auto
qed

text \<open>The codec of \<open>codec_env\<close> decodes what it encoded.\<close>

lemma bits_nat_nat_bits: "bits_nat (nat_bits n) = n"
proof (induction n rule: nat_bits.induct)
  case (1 n)
  show ?case
  proof (cases "n = 0")
    case True
    then show ?thesis by (simp add: nat_bits.simps [of 0])
  next
    case False
    with 1 have "bits_nat (nat_bits (n div 2)) = n div 2" by simp
    with False show ?thesis
      by (subst nat_bits.simps) auto
  qed
qed

lemma nat_bits_no_stop: "CHR '';'' \<notin> set (nat_bits n)"
proof (induction n rule: nat_bits.induct)
  case (1 n)
  then show ?case by (subst nat_bits.simps) auto
qed

lemma nat_bits_chars: "c \<in> set (nat_bits n) \<Longrightarrow> c \<noteq> CHR '';''"
  using nat_bits_no_stop [of n] by metis

lemma read_nat_enc_nat: "read_nat (enc_nat n @ rest) = (n, rest)"
proof -
  have t: "takeWhile (\<lambda>c. c \<noteq> CHR '';'') (nat_bits n @ CHR '';'' # rest) = nat_bits n"
    by (simp add: takeWhile_tail takeWhile_eq_all_conv nat_bits_chars)
  have d: "dropWhile (\<lambda>c. c \<noteq> CHR '';'') (nat_bits n @ CHR '';'' # rest) = CHR '';'' # rest"
    by (simp add: dropWhile_append2 nat_bits_chars)
  show ?thesis by (simp add: read_nat_def enc_nat_def t d bits_nat_nat_bits)
qed

lemma read_str_enc_str: "read_str (enc_str s @ rest) = Some (s, rest)"
  by (simp add: read_str_def enc_str_def read_nat_enc_nat)

lemma read_many_concat:
  assumes "\<And>x rest. x \<in> set xs \<Longrightarrow> p (e x @ rest) = Some (x, rest)"
  shows "read_many p (length xs) (concat (map e xs) @ rest) = Some (xs, rest)"
  using assms by (induction xs arbitrary: rest) simp_all

lemma length_part_le: "x \<in> set xs \<Longrightarrow> length (e x) \<le> length (concat (map e xs))"
  by (induction xs) auto

lemma read_json_token_chars:
  "length (token_chars j) \<le> f \<Longrightarrow> read_json f (token_chars j @ rest) = Some (j, rest)"
proof (induction j arbitrary: f rest)
  case JNull
  then show ?case by (cases f) simp_all
next
  case (JBool b)
  then show ?case by (cases f; cases b) simp_all
next
  case (JNum i)
  then show ?case by (cases f) (simp_all add: read_nat_enc_nat)
next
  case (JStr s)
  then show ?case by (cases f) (simp_all add: read_str_enc_str)
next
  case (JArr xs)
  from JArr.prems obtain g where f: "f = Suc g" by (cases f) auto
  have "read_json g (token_chars x @ r) = Some (x, r)" if "x \<in> set xs" for x r
  proof -
    have "length (token_chars x) \<le> length (concat (map token_chars xs))"
      using that by (rule length_part_le)
    with JArr.prems f have "length (token_chars x) \<le> g" by simp
    with JArr.IH that show ?thesis by blast
  qed
  then have "read_many (read_json g) (length xs) (concat (map token_chars xs) @ rest) = Some (xs, rest)"
    by (rule read_many_concat)
  then show ?case by (simp add: f read_nat_enc_nat)
next
  case (JObj ps)
  from JObj.prems obtain g where f: "f = Suc g" by (cases f) auto
  have "read_prop (read_json g) ((enc_str (fst p) @ token_chars (snd p)) @ r) = Some (p, r)"
    if "p \<in> set ps" for p r
  proof -
    have "length (enc_str (fst p) @ token_chars (snd p))
            \<le> length (concat (map (\<lambda>p. enc_str (fst p) @ token_chars (snd p)) ps))"
      using that by (rule length_part_le)
    with JObj.prems f have "length (token_chars (snd p)) \<le> g" by simp
    moreover have "snd p \<in> Basic_BNFs.snds p" by (cases p) simp
    ultimately have "read_json g (token_chars (snd p) @ r) = Some (snd p, r)"
      using JObj.IH that by blast
    then show ?thesis by (simp add: read_prop_def read_str_enc_str)
  qed
  then have "read_many (read_prop (read_json g)) (length ps)
       (concat (map (\<lambda>p. enc_str (fst p) @ token_chars (snd p)) ps) @ rest) = Some (ps, rest)"
    by (rule read_many_concat)
  then show ?case by (simp add: f read_nat_enc_nat)
qed

lemma token_decode_encode: "token_decode (token_encode j) = Some j"
  using read_json_token_chars [of j "length (token_chars j)" "[]"]
  by (simp add: token_decode_def token_encode_def)

lemma codec_env_lawful: "state_decode codec_env (state_encode codec_env j) = Some j"
  by (simp add: codec_env_def token_decode_encode)

text \<open>
  Claim C4. Let the codec decode every value it encoded to that value, and take the token
  \<open>generateSecureState\<close> issues for a user \<open>u\<close> at the instant \<open>issued\<close>, with a non-empty
  \<open>u\<close>, a non-zero \<open>issued\<close> and the 16 nonce bytes (an identity is a Firestore document
  identifier, which is never empty; the presence test of \<open>validateState\<close> takes an empty
  string or a zero for a missing field).
  Validated against \<open>u\<close> no later than one hour after issue it is valid; validated against
  any other identity it fails with the reason for a user mismatch; validated against \<open>u\<close>
  later than one hour after issue it fails as expired: valid at 59 minutes, expired at 61.
  For any token the reasons come in a fixed order: a token that does not decode (or
  decodes to null) has an invalid format whatever else holds; a decoded token with a
  missing field reports the missing fields whoever the expected user is and whatever its
  age; with all fields present another user is a mismatch whatever its age; only then does
  the age decide.
\<close>

theorem state_token_round_trip:
  assumes law: "\<And>j. state_decode env (state_encode env j) = Some j"
    and u: "u \<noteq> []" and t: "issued \<noteq> 0" and n: "length nonce_bytes = 16"
  shows
    "(now - issued \<le> 60 * 60 * 1000 \<longrightarrow>
        validateState env now (generateSecureState env nonce_bytes issued u) (JStr u) =
          \<lparr> valid = True, reason = None \<rparr>)
     \<and> (v \<noteq> u \<longrightarrow>
        validateState env now (generateSecureState env nonce_bytes issued u) (JStr v) =
          \<lparr> valid = False, reason = Some ''User ID mismatch'' \<rparr>)
     \<and> (now - issued > 60 * 60 * 1000 \<longrightarrow>
        validateState env now (generateSecureState env nonce_bytes issued u) (JStr u) =
          \<lparr> valid = False, reason = Some ''State parameter expired'' \<rparr>)
     \<and> validateState env (issued + 59 * 60 * 1000) (generateSecureState env nonce_bytes issued u) (JStr u) =
          \<lparr> valid = True, reason = None \<rparr>
     \<and> validateState env (issued + 61 * 60 * 1000) (generateSecureState env nonce_bytes issued u) (JStr u) =
          \<lparr> valid = False, reason = Some ''State parameter expired'' \<rparr>
     \<and> (state_decode env state = None \<or> state_decode env state = Some JNull \<longrightarrow>
        validateState env now state expected =
          \<lparr> valid = False, reason = Some ''Invalid state format'' \<rparr>)
     \<and> (state_decode env state = Some (JObj props)
         \<and> (\<not> js_truthy (map_of props ''userId'') \<or> \<not> js_truthy (map_of props ''timestamp'')
              \<or> \<not> js_truthy (map_of props ''nonce'')) \<longrightarrow>
        validateState env now state expected =
          \<lparr> valid = False, reason = Some ''Missing required state fields'' \<rparr>)
     \<and> (state_decode env state = Some (JObj props)
         \<and> js_truthy (map_of props ''userId'') \<and> js_truthy (map_of props ''timestamp'')
         \<and> js_truthy (map_of props ''nonce'')
         \<and> \<not> strict_equal (map_of props ''userId'') expected \<longrightarrow>
        validateState env now state expected =
          \<lparr> valid = False, reason = Some ''User ID mismatch'' \<rparr>)
     \<and> (state_decode env state = Some (JObj props)
         \<and> js_truthy (map_of props ''userId'') \<and> js_truthy (map_of props ''timestamp'')
         \<and> js_truthy (map_of props ''nonce'')
         \<and> strict_equal (map_of props ''userId'') expected
         \<and> map_of props ''timestamp'' = Some (JNum ts) \<longrightarrow>
        validateState env now state expected =
          (if now - ts > 60 * 60 * 1000
           then \<lparr> valid = False, reason = Some ''State parameter expired'' \<rparr>
           else \<lparr> valid = True, reason = None \<rparr>))"
proof -
  have dec: "state_decode env (generateSecureState env nonce_bytes issued u) =
            Some (JObj [(''userId'', JStr u), (''timestamp'', JNum issued),
                        (''nonce'', JStr (toHex nonce_bytes))])"
    unfolding generateSecureState_def by (rule law)
  note issued = validateState_issued [OF dec u t n]
  have a: "now - issued \<le> 60 * 60 * 1000 \<longrightarrow>
        validateState env now (generateSecureState env nonce_bytes issued u) (JStr u) =
          \<lparr> valid = True, reason = None \<rparr>"
    by (simp add: issued)
  have b: "v \<noteq> u \<longrightarrow>
        validateState env now (generateSecureState env nonce_bytes issued u) (JStr v) =
          \<lparr> valid = False, reason = Some ''User ID mismatch'' \<rparr>"
    by (simp add: issued)
  have c: "now - issued > 60 * 60 * 1000 \<longrightarrow>
        validateState env now (generateSecureState env nonce_bytes issued u) (JStr u) =
          \<lparr> valid = False, reason = Some ''State parameter expired'' \<rparr>"
    by (simp add: issued)
  have d: "validateState env (issued + 59 * 60 * 1000) (generateSecureState env nonce_bytes issued u) (JStr u) =
          \<lparr> valid = True, reason = None \<rparr>"
    by (simp add: issued)
  have e: "validateState env (issued + 61 * 60 * 1000) (generateSecureState env nonce_bytes issued u) (JStr u) =
          \<lparr> valid = False, reason = Some ''State parameter expired'' \<rparr>"
    by (simp add: issued)
  have f: "state_decode env state = None \<or> state_decode env state = Some JNull \<longrightarrow>
        validateState env now state expected =
          \<lparr> valid = False, reason = Some ''Invalid state format'' \<rparr>"
    by (auto simp: validateState_def)
  have g: "state_decode env state = Some (JObj props)
         \<and> (\<not> js_truthy (map_of props ''userId'') \<or> \<not> js_truthy (map_of props ''timestamp'')
              \<or> \<not> js_truthy (map_of props ''nonce'')) \<longrightarrow>
        validateState env now state expected =
          \<lparr> valid = False, reason = Some ''Missing required state fields'' \<rparr>"
    by (auto simp: validateState_decoded)
  have h: "state_decode env state = Some (JObj props)
         \<and> js_truthy (map_of props ''userId'') \<and> js_truthy (map_of props ''timestamp'')
         \<and> js_truthy (map_of props ''nonce'')
         \<and> \<not> strict_equal (map_of props ''userId'') expected \<longrightarrow>
        validateState env now state expected =
          \<lparr> valid = False, reason = Some ''User ID mismatch'' \<rparr>"
    by (auto simp: validateState_decoded)
  have i: "state_decode env state = Some (JObj props)
         \<and> js_truthy (map_of props ''userId'') \<and> js_truthy (map_of props ''timestamp'')
         \<and> js_truthy (map_of props ''nonce'')
         \<and> strict_equal (map_of props ''userId'') expected
         \<and> map_of props ''timestamp'' = Some (JNum ts) \<longrightarrow>
        validateState env now state expected =
          (if now - ts > 60 * 60 * 1000
           then \<lparr> valid = False, reason = Some ''State parameter expired'' \<rparr>
           else \<lparr> valid = True, reason = None \<rparr>)"
    by (auto simp: validateState_decoded)
  from a b c d e f g h i show ?thesis by blast
qed


lemma not_a_token: "token_decode ''not a token'' = None"
  by (simp add: token_decode_def eval_nat_numeral)

theorem state_token_round_trip_witness:
  "validateState codec_env 1700000060000 (generateSecureState codec_env sample_nonce 1700000000000 ''alice'')
      (JStr ''alice'') = \<lparr> valid = True, reason = None \<rparr>
   \<and> validateState codec_env 1700000060000 (generateSecureState codec_env sample_nonce 1700000000000 ''alice'')
      (JStr ''bob'') = \<lparr> valid = False, reason = Some ''User ID mismatch'' \<rparr>
   \<and> validateState codec_env 1700000060000 (generateSecureState codec_env sample_nonce 1700000000000 ''bob'')
      (JStr ''alice'') = \<lparr> valid = False, reason = Some ''User ID mismatch'' \<rparr>
   \<and> validateState codec_env 1700003660000 (generateSecureState codec_env sample_nonce 1700000000000 ''alice'')
      (JStr ''alice'') = \<lparr> valid = False, reason = Some ''State parameter expired'' \<rparr>
   \<and> validateState codec_env 1700003660000 ''not a token'' (JStr ''alice'') =
        \<lparr> valid = False, reason = Some ''Invalid state format'' \<rparr>"
proof -
  have n: "length sample_nonce = 16" by (simp add: sample_nonce_def)
  have d: "state_decode codec_env ''not a token'' = None"
    by (simp add: codec_env_def not_a_token)
  show ?thesis
    using state_token_round_trip [OF codec_env_lawful _ _ n, of "''alice''" 1700000000000 1700000060000
            "''bob''" "''not a token''" "JStr ''alice''" "[]" 0]
          state_token_round_trip [OF codec_env_lawful _ _ n, of "''bob''" 1700000000000 1700000060000
            "''alice''" "''not a token''" "JStr ''alice''" "[]" 0]
          state_token_round_trip [OF codec_env_lawful _ _ n, of "''alice''" 1700000000000 1700003660000
            "''bob''" "''not a token''" "JStr ''alice''" "[]" 0] d
    by simp
qed
section \<open>The on-demand fetch: order of the checks\<close>

lemma requested_window_default:
  "\<not> (truthy_str a \<and> truthy_str b) \<Longrightarrow>
     requested_window parse now a b = (Some (now - 12 * 60 * 60 * 1000), Some now)"
  by (auto simp: requested_window_def)

lemma requested_window_given:
  "a \<noteq> [] \<Longrightarrow> b \<noteq> [] \<Longrightarrow>
     requested_window parse now (Some a) (Some b) = (parse a, parse b)"
  by (simp add: requested_window_def truthy_str_def str_of_def)

lemma fetch_after_preconditions:
  assumes "getUserTokens env uid w = (Some tokens, w1)"
    and "checkRateLimit DEXCOM_API_CONFIG (rate_txn_fails env uid) now w1 = (rl, w2)"
    and "allowed rl"
    and "refresh_if_expiring env now uid tokens w2 = (Inr fresh, w3)"
  shows "dexcomFetchGlucoseData env now req (Some uid) w =
     (case fetch_body env now uid fresh rl req w3 of
        (Inl e, w4) \<Rightarrow> (case fetch_catch env now e w4 of (e', w5) \<Rightarrow> (Inl e', w5))
      | (Inr r, w4) \<Rightarrow> (Inr r, w4))"
  using assms by (simp add: dexcomFetchGlucoseData_def)

lemma fetch_catch_https [simp]:
  "fst (fetch_catch env now (HttpsError c m) w) = HttpsError c m"
  by (simp add: fetch_catch_def Let_def)

lemma validate_window_result:
  "fst (validate_window a b w) =
     (case (a, b) of
        (Some s, Some e) \<Rightarrow>
          if s < minAllowedDate
           then Inl (HttpsError ''invalid-argument'' ''Start date cannot be before 2020'')
           else if e < minAllowedDate
           then Inl (HttpsError ''invalid-argument'' ''End date cannot be before 2020'')
           else if s \<ge> e
           then Inl (HttpsError ''invalid-argument'' ''Start date must be before end date'')
           else if e - s > 365 * 24 * 60 * 60 * 1000
           then Inl (HttpsError ''invalid-argument'' ''Date range cannot exceed 1 year'')
           else Inr (s, e)
      | _ \<Rightarrow> Inl (HttpsError ''invalid-argument'' ''Invalid date format provided''))"
  by (simp add: validate_window_def split: option.splits)

lemma fetch_body_window_refused:
  assumes "validate_window (fst (requested_window (Date_parse env) now (startDate req) (endDate req)))
                 (snd (requested_window (Date_parse env) now (startDate req) (endDate req)))
                 (snd (sandbox_data_range env tokens w)) = (Inl err, w1)"
  shows "fetch_body env now uid tokens rl req w = (Inl err, w1)"
  using assms by (simp add: fetch_body_def Let_def)

lemma fetch_body_window_accepted:
  assumes "validate_window (fst (requested_window (Date_parse env) now (startDate req) (endDate req)))
                 (snd (requested_window (Date_parse env) now (startDate req) (endDate req)))
                 (snd (sandbox_data_range env tokens w)) = (Inr (s, e), w1)"
  shows "fetch_body env now uid tokens rl req w =
     (case final_window env now (fst (sandbox_data_range env tokens w)) s e of
        Inl err \<Rightarrow> (Inl err, w1)
      | Inr adjustment \<Rightarrow>
          fetch_and_store env now uid tokens rl req (fst (sandbox_data_range env tokens w)) adjustment w1)"
  using assms by (simp add: fetch_body_def Let_def)


lemma console_error_fields [simp]:
  "vendorCalls (console_error m w) = vendorCalls w"
  "glucoseReadings (console_error m w) = glucoseReadings w"
  "dexcomTokens (console_error m w) = dexcomTokens w"
  "rateLimits (console_error m w) = rateLimits w"
  "healthMetrics (console_error m w) = healthMetrics w"
  by (simp_all add: console_error_def)

lemma send_vendor_fields [simp]:
  "vendorCalls (send_vendor c w) = vendorCalls w @ [c]"
  "glucoseReadings (send_vendor c w) = glucoseReadings w"
  "dexcomTokens (send_vendor c w) = dexcomTokens w"
  "rateLimits (send_vendor c w) = rateLimits w"
  by (simp_all add: send_vendor_def)

lemma recordHealthMetric_fields [simp]:
  "vendorCalls (recordHealthMetric env now op ok rt err w) = vendorCalls w"
  "glucoseReadings (recordHealthMetric env now op ok rt err w) = glucoseReadings w"
  "dexcomTokens (recordHealthMetric env now op ok rt err w) = dexcomTokens w"
  "rateLimits (recordHealthMetric env now op ok rt err w) = rateLimits w"
  by (simp_all add: recordHealthMetric_def)

lemma getUserTokens_fields [simp]:
  "vendorCalls (snd (getUserTokens env uid w)) = vendorCalls w"
  "glucoseReadings (snd (getUserTokens env uid w)) = glucoseReadings w"
  "dexcomTokens (snd (getUserTokens env uid w)) = dexcomTokens w"
  "rateLimits (snd (getUserTokens env uid w)) = rateLimits w"
  by (simp_all add: getUserTokens_def)

lemma checkRateLimit_fields [simp]:
  "vendorCalls (snd (checkRateLimit cfg f now w)) = vendorCalls w"
  "glucoseReadings (snd (checkRateLimit cfg f now w)) = glucoseReadings w"
  "dexcomTokens (snd (checkRateLimit cfg f now w)) = dexcomTokens w"
  by (simp_all add: checkRateLimit_def Let_def)

lemma validate_window_fields [simp]:
  "vendorCalls (snd (validate_window a b w)) = vendorCalls w"
  "glucoseReadings (snd (validate_window a b w)) = glucoseReadings w"
  "dexcomTokens (snd (validate_window a b w)) = dexcomTokens w"
  "rateLimits (snd (validate_window a b w)) = rateLimits w"
  by (simp_all add: validate_window_def split: option.splits)

lemma fetch_catch_fields [simp]:
  "vendorCalls (snd (fetch_catch env now e w)) = vendorCalls w"
  "glucoseReadings (snd (fetch_catch env now e w)) = glucoseReadings w"
  "dexcomTokens (snd (fetch_catch env now e w)) = dexcomTokens w"
  "rateLimits (snd (fetch_catch env now e w)) = rateLimits w"
  by (simp_all add: fetch_catch_def Let_def split: func_error.splits)

lemma fetch_window_error:
  assumes tok: "getUserTokens env uid w = (Some tokens, w1)"
    and chk: "checkRateLimit DEXCOM_API_CONFIG (rate_txn_fails env uid) now w1 = (rl, w2)"
    and adm: "allowed rl"
    and fresh: "refresh_if_expiring env now uid tokens w2 = (Inr fresh, w3)"
    and win: "requested_window (Date_parse env) now (startDate req) (endDate req) = (ps, pe)"
    and bad: "fst (validate_window ps pe w3) = Inl (HttpsError c m)"
  shows "fst (dexcomFetchGlucoseData env now req (Some uid) w) = Inl (HttpsError c m)
       \<and> vendorCalls (snd (dexcomFetchGlucoseData env now req (Some uid) w)) =
           vendorCalls (snd (sandbox_data_range env fresh w3))"
proof -
  let ?wr = "snd (sandbox_data_range env fresh w3)"
  have "fst (validate_window ps pe ?wr) = Inl (HttpsError c m)"
    using bad by (simp add: validate_window_result)
  then have v: "validate_window ps pe ?wr = (Inl (HttpsError c m), snd (validate_window ps pe ?wr))"
    by (metis prod.collapse)
  have body: "fetch_body env now uid fresh rl req w3 =
          (Inl (HttpsError c m), snd (validate_window ps pe ?wr))"
    by (rule fetch_body_window_refused) (simp add: win v [symmetric])
  show ?thesis
    unfolding fetch_after_preconditions [OF tok chk adm fresh] body
    by (simp add: split_beta)
qed


lemma validate_window_error_kind:
  assumes "isl (fst (validate_window ps pe w))"
  obtains m where "fst (validate_window ps pe w) = Inl (HttpsError ''invalid-argument'' m)"
  using assms by (auto simp: validate_window_result split: option.splits if_splits)

lemma fetch_window_error_calls:
  assumes tok: "getUserTokens env uid w = (Some tokens, w1)"
    and chk: "checkRateLimit DEXCOM_API_CONFIG (rate_txn_fails env uid) now w1 = (rl, w2)"
    and adm: "allowed rl"
    and fresh: "refresh_if_expiring env now uid tokens w2 = (Inr fresh, w3)"
    and win: "requested_window (Date_parse env) now (startDate req) (endDate req) = (ps, pe)"
    and bad: "isl (fst (validate_window ps pe w3))"
  shows "vendorCalls (snd (dexcomFetchGlucoseData env now req (Some uid) w)) =
           vendorCalls (snd (sandbox_data_range env fresh w3))"
proof -
  from bad obtain m where "fst (validate_window ps pe w3) = Inl (HttpsError ''invalid-argument'' m)"
    by (rule validate_window_error_kind)
  from fetch_window_error [OF tok chk adm fresh win this] show ?thesis by simp
qed

lemma fetch_no_tokens:
  assumes "fst (getUserTokens env uid w) = None"
  shows "fst (dexcomFetchGlucoseData env now req (Some uid) w) =
           Inl (HttpsError ''not-found'' ''No Dexcom tokens found. Please connect to Dexcom first.'')
       \<and> rateLimits (snd (dexcomFetchGlucoseData env now req (Some uid) w)) = rateLimits w
       \<and> vendorCalls (snd (dexcomFetchGlucoseData env now req (Some uid) w)) = vendorCalls w"
proof -
  obtain w' where g: "getUserTokens env uid w = (None, w')"
    using assms by (metis prod.collapse)
  have "rateLimits w' = rateLimits w" "vendorCalls w' = vendorCalls w"
    using getUserTokens_fields(1,4) [of env uid w] by (simp_all add: g)
  then show ?thesis
    by (simp add: dexcomFetchGlucoseData_def g)
qed

lemma fetch_rate_limited:
  assumes tok: "getUserTokens env uid w = (Some tokens, w1)"
    and den: "\<not> allowed (fst (checkRateLimit DEXCOM_API_CONFIG (rate_txn_fails env uid) now w1))"
  shows "fst (dexcomFetchGlucoseData env now req (Some uid) w) =
           Inl (HttpsError ''resource-exhausted'' ''API rate limit exceeded. Please try again later.'')
       \<and> vendorCalls (snd (dexcomFetchGlucoseData env now req (Some uid) w)) = vendorCalls w"
proof -
  have w1: "vendorCalls w1 = vendorCalls w"
    using getUserTokens_fields(1) [of env uid w] tok by simp
  show ?thesis
    using den w1 by (simp add: dexcomFetchGlucoseData_def tok split_beta)
qed

lemma fetch_refresh_failed:
  assumes tok: "getUserTokens env uid w = (Some tokens, w1)"
    and chk: "checkRateLimit DEXCOM_API_CONFIG (rate_txn_fails env uid) now w1 = (rl, w2)"
    and adm: "allowed rl"
    and stale: "refresh_if_expiring env now uid tokens w2 = (Inl err, w3)"
  shows "dexcomFetchGlucoseData env now req (Some uid) w = (Inl err, w3)"
  using assms by (simp add: dexcomFetchGlucoseData_def)

text \<open>
  Claim C7. The checks of \<open>dexcomFetchGlucoseData\<close> fail fast in a fixed order. Without a
  credential record the call fails as not found, before the rate limiter is asked and
  before any request to the vendor. With a record and a denial by the rate limiter it
  fails as resource exhausted, before any request to the vendor. Admitted, a failing
  token refresh ends the call with the error of the refresh, whatever the dates are.
  Past these, on the parsed dates: an unparsable date is an invalid format; otherwise a
  start before 2020-01-01 is the start floor error; otherwise an end before it is the end
  floor error; otherwise a start not before the end is the ordering error; otherwise a
  range over 365 days is the range error. So a start that is before the floor and not
  before its end fails with the floor error and not with the ordering error. After any
  of these date errors no reading request is sent to the vendor.
\<close>

theorem dexcomFetchGlucoseData_validation_order:
  "(fst (getUserTokens env uid w) = None \<longrightarrow>
      fst (dexcomFetchGlucoseData env now req (Some uid) w) =
        Inl (HttpsError ''not-found'' ''No Dexcom tokens found. Please connect to Dexcom first.'')
      \<and> rateLimits (snd (dexcomFetchGlucoseData env now req (Some uid) w)) = rateLimits w
      \<and> vendorCalls (snd (dexcomFetchGlucoseData env now req (Some uid) w)) = vendorCalls w)
   \<and> (getUserTokens env uid w = (Some tokens, w1)
       \<and> \<not> allowed (fst (checkRateLimit DEXCOM_API_CONFIG (rate_txn_fails env uid) now w1)) \<longrightarrow>
      fst (dexcomFetchGlucoseData env now req (Some uid) w) =
        Inl (HttpsError ''resource-exhausted'' ''API rate limit exceeded. Please try again later.'')
      \<and> vendorCalls (snd (dexcomFetchGlucoseData env now req (Some uid) w)) = vendorCalls w)
   \<and> (getUserTokens env uid w = (Some tokens, w1)
       \<and> checkRateLimit DEXCOM_API_CONFIG (rate_txn_fails env uid) now w1 = (rl, w2) \<and> allowed rl
       \<and> refresh_if_expiring env now uid tokens w2 = (Inl err, w3) \<longrightarrow>
      dexcomFetchGlucoseData env now req (Some uid) w = (Inl err, w3))
   \<and> (getUserTokens env uid w = (Some tokens, w1)
       \<and> checkRateLimit DEXCOM_API_CONFIG (rate_txn_fails env uid) now w1 = (rl, w2) \<and> allowed rl
       \<and> refresh_if_expiring env now uid tokens w2 = (Inr fresh, w3)
       \<and> requested_window (Date_parse env) now (startDate req) (endDate req) = (ps, pe) \<longrightarrow>
      (ps = None \<or> pe = None \<longrightarrow>
         fst (dexcomFetchGlucoseData env now req (Some uid) w) =
           Inl (HttpsError ''invalid-argument'' ''Invalid date format provided''))
      \<and> (ps = Some s \<and> pe = Some e \<and> s < minAllowedDate \<longrightarrow>
         fst (dexcomFetchGlucoseData env now req (Some uid) w) =
           Inl (HttpsError ''invalid-argument'' ''Start date cannot be before 2020''))
      \<and> (ps = Some s \<and> pe = Some e \<and> minAllowedDate \<le> s \<and> e < minAllowedDate \<longrightarrow>
         fst (dexcomFetchGlucoseData env now req (Some uid) w) =
           Inl (HttpsError ''invalid-argument'' ''End date cannot be before 2020''))
      \<and> (ps = Some s \<and> pe = Some e \<and> minAllowedDate \<le> s \<and> minAllowedDate \<le> e \<and> e \<le> s \<longrightarrow>
         fst (dexcomFetchGlucoseData env now req (Some uid) w) =
           Inl (HttpsError ''invalid-argument'' ''Start date must be before end date''))
      \<and> (ps = Some s \<and> pe = Some e \<and> minAllowedDate \<le> s \<and> minAllowedDate \<le> e \<and> s < e
          \<and> e - s > 365 * 24 * 60 * 60 * 1000 \<longrightarrow>
         fst (dexcomFetchGlucoseData env now req (Some uid) w) =
           Inl (HttpsError ''invalid-argument'' ''Date range cannot exceed 1 year''))
      \<and> (ps = Some s \<and> pe = Some e \<and> s < minAllowedDate \<and> e \<le> s \<longrightarrow>
         fst (dexcomFetchGlucoseData env now req (Some uid) w) \<noteq>
           Inl (HttpsError ''invalid-argument'' ''Start date must be before end date''))
      \<and> (ps = None \<or> pe = None \<or> ps = Some s \<and> pe = Some e
            \<and> (s < minAllowedDate \<or> e < minAllowedDate \<or> e \<le> s \<or> e - s > 365 * 24 * 60 * 60 * 1000) \<longrightarrow>
         vendorCalls (snd (dexcomFetchGlucoseData env now req (Some uid) w)) =
           vendorCalls (snd (sandbox_data_range env fresh w3))))"
proof -
  have p4: "fst (dexcomFetchGlucoseData env now req (Some uid) w) = Inl (HttpsError c m)
       \<and> vendorCalls (snd (dexcomFetchGlucoseData env now req (Some uid) w)) =
           vendorCalls (snd (sandbox_data_range env fresh w3))"
    if "getUserTokens env uid w = (Some tokens, w1)"
      "checkRateLimit DEXCOM_API_CONFIG (rate_txn_fails env uid) now w1 = (rl, w2)" "allowed rl"
      "refresh_if_expiring env now uid tokens w2 = (Inr fresh, w3)"
      "requested_window (Date_parse env) now (startDate req) (endDate req) = (ps, pe)"
      "fst (validate_window ps pe w3) = Inl (HttpsError c m)" for c m
    using that by (rule fetch_window_error)
  show ?thesis
    apply (intro conjI impI)
    subgoal using fetch_no_tokens by blast
    subgoal using fetch_no_tokens by blast
    subgoal using fetch_no_tokens by blast
    subgoal using fetch_rate_limited by blast
    subgoal using fetch_rate_limited by blast
    subgoal using fetch_refresh_failed by blast
    subgoal by (rule p4 [THEN conjunct1]) (auto simp: validate_window_result split: option.splits)
    subgoal by (rule p4 [THEN conjunct1]) (auto simp: validate_window_result)
    subgoal by (rule p4 [THEN conjunct1]) (auto simp: validate_window_result)
    subgoal by (rule p4 [THEN conjunct1]) (auto simp: validate_window_result)
    subgoal by (rule p4 [THEN conjunct1]) (auto simp: validate_window_result)
    subgoal
      using p4 [THEN conjunct1, of "''invalid-argument''" "''Start date cannot be before 2020''"]
      by (auto simp: validate_window_result)
    subgoal
      by (rule fetch_window_error_calls; (assumption)?)
         (auto simp: validate_window_result split: option.splits)
    done
qed


lemma sample_getUserTokens:
  "getUserTokens sample_env ''alice'' sample_world = (Some sample_tokens, sample_world)"
  by (simp add: getUserTokens_def sample_env_def sample_world_def)

lemma sample_checkRateLimit:
  "checkRateLimit DEXCOM_API_CONFIG (rate_txn_fails sample_env ''alice'') 1700000000000 sample_world =
     (sample_admitted, sample_world_charged)"
  by (simp add: checkRateLimit_def sample_env_def sample_world_def empty_world_def ledger_calls_def
      DEXCOM_API_CONFIG_def sample_admitted_def sample_world_charged_def Let_def)

lemma sample_refresh_if_expiring:
  "refresh_if_expiring sample_env 1700000000000 ''alice'' sample_tokens sample_world_charged =
     (Inr sample_tokens, sample_world_charged)"
  by (simp add: refresh_if_expiring_def sample_tokens_def DEXCOM_API_CONFIG_def)

theorem dexcomFetchGlucoseData_validation_order_witness:
  "fst (dexcomFetchGlucoseData sample_env 1700000000000 \<lparr> startDate = Some ''B'', endDate = Some ''A'' \<rparr>
          (Some ''alice'') sample_world) =
     Inl (HttpsError ''invalid-argument'' ''Start date cannot be before 2020'')
   \<and> fst (dexcomFetchGlucoseData sample_env 1700000000000 \<lparr> startDate = Some ''B'', endDate = Some ''A'' \<rparr>
          (Some ''bob'') sample_world) =
     Inl (HttpsError ''not-found'' ''No Dexcom tokens found. Please connect to Dexcom first.'')"
proof -
  have q: "requested_window (Date_parse sample_env) 1700000000000
             (startDate \<lparr> startDate = Some ''B'', endDate = Some ''A'' \<rparr>)
             (endDate \<lparr> startDate = Some ''B'', endDate = Some ''A'' \<rparr>) =
           (Some 200000000, Some 100000000)"
    by (simp add: requested_window_def truthy_str_def str_of_def sample_env_def sample_parse_def)
  have f: "(200000000::int) < minAllowedDate" by (simp add: minAllowedDate_def)
  have b: "fst (getUserTokens sample_env ''bob'' sample_world) = None"
    by (simp add: getUserTokens_def sample_env_def sample_world_def)
  show ?thesis
    using dexcomFetchGlucoseData_validation_order
      [where env = sample_env and uid = "''alice''" and w = sample_world and now = 1700000000000
         and req = "\<lparr> startDate = Some ''B'', endDate = Some ''A'' \<rparr>"
         and tokens = sample_tokens and ?w1.0 = sample_world and rl = sample_admitted
         and ?w2.0 = sample_world_charged and fresh = sample_tokens and ?w3.0 = sample_world_charged
         and ps = "Some 200000000" and pe = "Some 100000000" and s = 200000000 and e = 100000000]
      dexcomFetchGlucoseData_validation_order
      [where env = sample_env and uid = "''bob''" and w = sample_world and now = 1700000000000
         and req = "\<lparr> startDate = Some ''B'', endDate = Some ''A'' \<rparr>"]
      sample_getUserTokens sample_checkRateLimit sample_refresh_if_expiring q f b
    by (simp add: sample_admitted_def)
qed

section \<open>The on-demand fetch: default window\<close>

lemma storeGlucoseReadings_fields [simp]:
  "vendorCalls (snd (storeGlucoseReadings env now uid rs w)) = vendorCalls w"
  "dexcomTokens (snd (storeGlucoseReadings env now uid rs w)) = dexcomTokens w"
  "rateLimits (snd (storeGlucoseReadings env now uid rs w)) = rateLimits w"
  by (simp_all add: storeGlucoseReadings_def split: option.splits)

lemma egvs_failure_fields [simp]:
  "vendorCalls (snd (egvs_failure env now st txt a b w)) = vendorCalls w"
  "glucoseReadings (snd (egvs_failure env now st txt a b w)) = glucoseReadings w"
  "dexcomTokens (snd (egvs_failure env now st txt a b w)) = dexcomTokens w"
  "rateLimits (snd (egvs_failure env now st txt a b w)) = rateLimits w"
  by (simp_all add: egvs_failure_def Let_def)

lemma fetch_and_store_calls:
  assumes "adj_startDate adjustment = Some a" "adj_endDate adjustment = Some b"
  shows "vendorCalls (snd (fetch_and_store env now uid tokens rl req dr adjustment w)) =
     vendorCalls w @ [EgvsCall (getDexcomBaseUrl (useSandbox (dexcomConfig env))) (accessToken tokens)
                        (formatDate env a) (formatDate env b)]"
  using assms
  by (simp add: fetch_and_store_def formatDexcomDate_def Let_def split_beta
      split: http_result.splits option.splits sum.splits)

lemma fetch_wrap_calls:
  "vendorCalls (snd (case body of
        (Inl e, w4) \<Rightarrow> (case fetch_catch env now e w4 of (e', w5) \<Rightarrow> (Inl e', w5))
      | (Inr r, w4) \<Rightarrow> (Inr r, w4))) = vendorCalls (snd body)"
  by (simp add: split_beta split: sum.splits)

lemma fetch_default_request:
  assumes tok: "getUserTokens env uid w = (Some tokens, w1)"
    and chk: "checkRateLimit DEXCOM_API_CONFIG (rate_txn_fails env uid) now w1 = (rl, w2)"
    and adm: "allowed rl"
    and fresh: "refresh_if_expiring env now uid tokens w2 = (Inr fresh, w3)"
    and prod: "\<not> useSandbox (dexcomConfig env)"
    and late: "minAllowedDate \<le> now - 12 * 60 * 60 * 1000"
    and dflt: "\<not> (truthy_str (startDate req) \<and> truthy_str (endDate req))"
  shows "vendorCalls (snd (dexcomFetchGlucoseData env now req (Some uid) w)) =
     vendorCalls w3 @ [EgvsCall (getDexcomBaseUrl False) (accessToken fresh)
                        (formatDate env (now - 12 * 60 * 60 * 1000)) (formatDate env now)]"
proof -
  have sr: "sandbox_data_range env fresh w3 = (None, w3)"
    using prod by (simp add: sandbox_data_range_def)
  have win: "requested_window (Date_parse env) now (startDate req) (endDate req) =
      (Some (now - 12 * 60 * 60 * 1000), Some now)"
    using dflt by (rule requested_window_default)
  have v: "validate_window (Some (now - 12 * 60 * 60 * 1000)) (Some now) w3 =
      (Inr (now - 12 * 60 * 60 * 1000, now), w3)"
    using late by (simp add: validate_window_def)
  have fw: "final_window env now None (now - 12 * 60 * 60 * 1000) now =
      Inr \<lparr> adj_startDate = Some (now - 12 * 60 * 60 * 1000), adj_endDate = Some now,
            adjusted = False \<rparr>"
    by (simp add: final_window_def)
  have body: "fetch_body env now uid fresh rl req w3 =
      fetch_and_store env now uid fresh rl req None
        \<lparr> adj_startDate = Some (now - 12 * 60 * 60 * 1000), adj_endDate = Some now,
          adjusted = False \<rparr> w3"
    using fetch_body_window_accepted [of env now req fresh w3 "now - 12 * 60 * 60 * 1000" now w3 uid rl]
      win v fw
    by (simp add: sr)
  show ?thesis
    unfolding fetch_after_preconditions [OF tok chk adm fresh] fetch_wrap_calls body
    using prod by (simp add: fetch_and_store_calls)
qed

text \<open>
  Claim C10. When the start date and the end date are not both given, the requested
  window is the 12 hours that end now; a single bound that was given is ignored. Both
  bounds given are the two parsed dates. In production mode, with the clock at least 12
  hours past the floor date, the reading request the handler then sends to the vendor
  is the one for that default window.
\<close>

theorem dexcomFetchGlucoseData_default_window:
  "(\<not> (truthy_str a \<and> truthy_str b) \<longrightarrow>
      requested_window parse now a b = (Some (now - 12 * 60 * 60 * 1000), Some now))
   \<and> requested_window parse now None None = (Some (now - 12 * 60 * 60 * 1000), Some now)
   \<and> requested_window parse now (Some x) None = (Some (now - 12 * 60 * 60 * 1000), Some now)
   \<and> requested_window parse now None (Some y) = (Some (now - 12 * 60 * 60 * 1000), Some now)
   \<and> (x \<noteq> [] \<and> y \<noteq> [] \<longrightarrow> requested_window parse now (Some x) (Some y) = (parse x, parse y))
   \<and> (getUserTokens env uid w = (Some tokens, w1)
       \<and> checkRateLimit DEXCOM_API_CONFIG (rate_txn_fails env uid) now w1 = (rl, w2) \<and> allowed rl
       \<and> refresh_if_expiring env now uid tokens w2 = (Inr fresh, w3)
       \<and> \<not> useSandbox (dexcomConfig env)
       \<and> minAllowedDate \<le> now - 12 * 60 * 60 * 1000
       \<and> \<not> (truthy_str (startDate req) \<and> truthy_str (endDate req)) \<longrightarrow>
      vendorCalls (snd (dexcomFetchGlucoseData env now req (Some uid) w)) =
        vendorCalls w3 @ [EgvsCall (getDexcomBaseUrl False) (accessToken fresh)
                           (formatDate env (now - 12 * 60 * 60 * 1000)) (formatDate env now)])"
  apply (intro conjI impI)
  subgoal by (rule requested_window_default)
  subgoal by (simp add: requested_window_def truthy_str_def)
  subgoal by (simp add: requested_window_def truthy_str_def)
  subgoal by (simp add: requested_window_def truthy_str_def)
  subgoal by (simp add: requested_window_given)
  subgoal by (elim conjE, rule fetch_default_request) assumption+
  done

theorem dexcomFetchGlucoseData_default_window_witness:
  "vendorCalls (snd (dexcomFetchGlucoseData sample_env 1700000000000
       \<lparr> startDate = Some ''A'', endDate = None \<rparr> (Some ''alice'') sample_world)) =
     [EgvsCall ''https://api.dexcom.com'' ''access-1''
        (Number_toString 1699956800000) (Number_toString 1700000000000)]"
proof -
  have p: "\<not> useSandbox (dexcomConfig sample_env)" by (simp add: sample_env_def)
  have l: "minAllowedDate \<le> 1700000000000 - 12 * 60 * 60 * 1000" by (simp add: minAllowedDate_def)
  have d: "\<not> (truthy_str (startDate \<lparr> startDate = Some ''A'', endDate = None \<rparr>)
             \<and> truthy_str (endDate \<lparr> startDate = Some ''A'', endDate = None \<rparr>))"
    by (simp add: truthy_str_def)
  have c: "vendorCalls sample_world_charged = []"
    by (simp add: sample_world_charged_def sample_world_def empty_world_def)
  have e: "formatDate sample_env = Number_toString" by (simp add: sample_env_def)
  show ?thesis
    using dexcomFetchGlucoseData_default_window
      [where env = sample_env and uid = "''alice''" and w = sample_world and now = 1700000000000
         and req = "\<lparr> startDate = Some ''A'', endDate = None \<rparr>"
         and tokens = sample_tokens and ?w1.0 = sample_world and rl = sample_admitted
         and ?w2.0 = sample_world_charged and fresh = sample_tokens and ?w3.0 = sample_world_charged]
      sample_getUserTokens sample_checkRateLimit sample_refresh_if_expiring p l d
    by (simp add: sample_admitted_def c e getDexcomBaseUrl_def DEXCOM_API_CONFIG_def sample_tokens_def)
qed

section \<open>Proactive token refresh\<close>

lemma saveUserTokens_fields [simp]:
  "vendorCalls (snd (saveUserTokens env now uid a r e c w)) = vendorCalls w"
  "glucoseReadings (snd (saveUserTokens env now uid a r e c w)) = glucoseReadings w"
  "rateLimits (snd (saveUserTokens env now uid a r e c w)) = rateLimits w"
  by (simp_all add: saveUserTokens_def)

lemma refreshAccessToken_calls:
  "vendorCalls (snd (refreshAccessToken env now uid rt w)) =
     vendorCalls w @ [TokenCall (getDexcomBaseUrl (useSandbox (dexcomConfig env)) @ ''/v2/oauth2/token'')
                        (RefreshGrant rt)]"
  by (simp add: refreshAccessToken_def Let_def split_beta
      split: http_result.splits option.splits sum.splits)

lemma refreshAccessToken_readings [simp]:
  "glucoseReadings (snd (refreshAccessToken env now uid rt w)) = glucoseReadings w"
  by (simp add: refreshAccessToken_def Let_def split_beta
      split: http_result.splits option.splits sum.splits)

lemma refresh_if_expiring_due:
  "refresh_due now tokens \<Longrightarrow>
     refresh_if_expiring env now uid tokens w = refreshAccessToken env now uid (refreshToken tokens) w"
  by (simp add: refresh_if_expiring_def refresh_due_def DEXCOM_API_CONFIG_def)

lemma refresh_if_expiring_not_due:
  "\<not> refresh_due now tokens \<Longrightarrow> refresh_if_expiring env now uid tokens w = (Inr tokens, w)"
  by (simp add: refresh_if_expiring_def refresh_due_def DEXCOM_API_CONFIG_def)

lemma refresh_if_expiring_calls:
  "vendorCalls (snd (refresh_if_expiring env now uid tokens w)) =
     vendorCalls w @ (if refresh_due now tokens then [refresh_request env tokens] else [])"
  by (simp add: refresh_if_expiring_due refresh_if_expiring_not_due refreshAccessToken_calls
      refresh_request_def)

lemma refresh_if_expiring_readings [simp]:
  "glucoseReadings (snd (refresh_if_expiring env now uid tokens w)) = glucoseReadings w"
  by (cases "refresh_due now tokens")
     (simp_all add: refresh_if_expiring_due refresh_if_expiring_not_due)

lemma getDexcomDataRange_fields [simp]:
  "refresh_calls (snd (getDexcomDataRange env t b w)) = refresh_calls w"
  "glucoseReadings (snd (getDexcomDataRange env t b w)) = glucoseReadings w"
  "dexcomTokens (snd (getDexcomDataRange env t b w)) = dexcomTokens w"
  "rateLimits (snd (getDexcomDataRange env t b w)) = rateLimits w"
  by (simp_all add: getDexcomDataRange_def refresh_calls_def Let_def
      split: http_result.splits option.splits)

lemma sandbox_data_range_fields [simp]:
  "refresh_calls (snd (sandbox_data_range env t w)) = refresh_calls w"
  "glucoseReadings (snd (sandbox_data_range env t w)) = glucoseReadings w"
  "dexcomTokens (snd (sandbox_data_range env t w)) = dexcomTokens w"
  "rateLimits (snd (sandbox_data_range env t w)) = rateLimits w"
  by (simp_all add: sandbox_data_range_def)

lemma refresh_calls_simps [simp]:
  "refresh_calls (console_error m w) = refresh_calls w"
  "refresh_calls (recordHealthMetric env now op ok rt err w) = refresh_calls w"
  "refresh_calls (snd (getUserTokens env uid w)) = refresh_calls w"
  "refresh_calls (snd (checkRateLimit cfg f now w)) = refresh_calls w"
  "refresh_calls (snd (validate_window a b w)) = refresh_calls w"
  "refresh_calls (snd (fetch_catch env now e w)) = refresh_calls w"
  "refresh_calls (snd (storeGlucoseReadings env now uid rs w)) = refresh_calls w"
  "refresh_calls (snd (egvs_failure env now st txt x y w)) = refresh_calls w"
  "refresh_calls (send_vendor (EgvsCall base tk x y) w) = refresh_calls w"
  by (simp_all add: refresh_calls_def)

lemma fetch_and_store_keeps:
  "refresh_calls (snd (fetch_and_store env now uid tokens rl req dr adjustment w)) = refresh_calls w"
  "dexcomTokens (snd (fetch_and_store env now uid tokens rl req dr adjustment w)) = dexcomTokens w"
  by (simp_all add: fetch_and_store_def formatDexcomDate_def Let_def split_beta
      split: http_result.splits option.splits sum.splits)

lemma fetch_body_keeps:
  "refresh_calls (snd (fetch_body env now uid tokens rl req w)) = refresh_calls w"
  "dexcomTokens (snd (fetch_body env now uid tokens rl req w)) = dexcomTokens w"
  by (simp_all add: fetch_body_def Let_def split_beta fetch_and_store_keeps split: sum.splits)


lemma refresh_if_expiring_refresh_calls:
  "refresh_calls (snd (refresh_if_expiring env now uid tokens w)) =
     refresh_calls w @ (if refresh_due now tokens then [refresh_request env tokens] else [])"
  by (simp add: refresh_calls_def refresh_if_expiring_calls refresh_request_def)

lemma fetch_refresh_calls:
  assumes tok: "getUserTokens env uid w = (Some tokens, w1)"
    and adm: "allowed (fst (checkRateLimit DEXCOM_API_CONFIG (rate_txn_fails env uid) now w1))"
  shows "refresh_calls (snd (dexcomFetchGlucoseData env now req (Some uid) w)) =
     refresh_calls w @ (if refresh_due now tokens then [refresh_request env tokens] else [])"
proof -
  obtain rl w2 where chk: "checkRateLimit DEXCOM_API_CONFIG (rate_txn_fails env uid) now w1 = (rl, w2)"
    by (cases "checkRateLimit DEXCOM_API_CONFIG (rate_txn_fails env uid) now w1")
  have w1: "refresh_calls w1 = refresh_calls w"
    using refresh_calls_simps(3) [of env uid w] by (simp add: tok)
  have w2: "refresh_calls w2 = refresh_calls w1"
    using refresh_calls_simps(4) [of DEXCOM_API_CONFIG "rate_txn_fails env uid" now w1] by (simp add: chk)
  obtain res w3 where r: "refresh_if_expiring env now uid tokens w2 = (res, w3)"
    by (cases "refresh_if_expiring env now uid tokens w2")
  have w3: "refresh_calls w3 =
      refresh_calls w2 @ (if refresh_due now tokens then [refresh_request env tokens] else [])"
    using refresh_if_expiring_refresh_calls [of env now uid tokens w2] by (simp add: r)
  from adm chk have a: "allowed rl" by simp
  show ?thesis
  proof (cases res)
    case (Inl e)
    then show ?thesis
      using a by (simp add: dexcomFetchGlucoseData_def tok chk r w3 w2 w1)
  next
    case (Inr fresh)
    have "refresh_calls (snd (dexcomFetchGlucoseData env now req (Some uid) w)) =
        refresh_calls (snd (fetch_body env now uid fresh rl req w3))"
      using a Inr by (simp add: dexcomFetchGlucoseData_def tok chk r split_beta split: sum.splits)
    then show ?thesis by (simp add: fetch_body_keeps w3 w2 w1)
  qed
qed

lemma fetch_keeps_record:
  assumes tok: "getUserTokens env uid w = (Some tokens, w1)"
    and adm: "allowed (fst (checkRateLimit DEXCOM_API_CONFIG (rate_txn_fails env uid) now w1))"
    and fresh: "\<not> refresh_due now tokens"
  shows "dexcomTokens (snd (dexcomFetchGlucoseData env now req (Some uid) w)) = dexcomTokens w"
proof -
  obtain rl w2 where chk: "checkRateLimit DEXCOM_API_CONFIG (rate_txn_fails env uid) now w1 = (rl, w2)"
    by (cases "checkRateLimit DEXCOM_API_CONFIG (rate_txn_fails env uid) now w1")
  have w1: "dexcomTokens w1 = dexcomTokens w"
    using getUserTokens_fields(3) [of env uid w] by (simp add: tok)
  have w2: "dexcomTokens w2 = dexcomTokens w1"
    using checkRateLimit_fields(3) [of DEXCOM_API_CONFIG "rate_txn_fails env uid" now w1] by (simp add: chk)
  from adm chk have a: "allowed rl" by simp
  have "dexcomTokens (snd (dexcomFetchGlucoseData env now req (Some uid) w)) =
        dexcomTokens (snd (fetch_body env now uid tokens rl req w2))"
    unfolding fetch_after_preconditions [OF tok chk a refresh_if_expiring_not_due [OF fresh]]
    by (simp add: split_beta split: sum.splits)
  then show ?thesis by (simp add: fetch_body_keeps w2 w1)
qed

lemma pull_user_refresh_calls:
  assumes adm: "allowed (fst (checkRateLimit DEXCOM_API_CONFIG (rate_txn_fails env (userId tokens)) now w))"
  shows "refresh_calls (pull_user env now tokens w) =
     refresh_calls w @ (if refresh_due now tokens then [refresh_request env tokens] else [])"
proof -
  obtain rl w1 where chk:
    "checkRateLimit DEXCOM_API_CONFIG (rate_txn_fails env (userId tokens)) now w = (rl, w1)"
    by (cases "checkRateLimit DEXCOM_API_CONFIG (rate_txn_fails env (userId tokens)) now w")
  have w1: "refresh_calls w1 = refresh_calls w"
    using refresh_calls_simps(4) [of DEXCOM_API_CONFIG "rate_txn_fails env (userId tokens)" now w]
    by (simp add: chk)
  obtain res w2 where r: "refresh_if_expiring env now (userId tokens) tokens w1 = (res, w2)"
    by (cases "refresh_if_expiring env now (userId tokens) tokens w1")
  have w2: "refresh_calls w2 =
      refresh_calls w1 @ (if refresh_due now tokens then [refresh_request env tokens] else [])"
    using refresh_if_expiring_refresh_calls [of env now "userId tokens" tokens w1] by (simp add: r)
  from adm chk have a: "allowed rl" by simp
  have "refresh_calls (pull_user env now tokens w) = refresh_calls w2"
    using a
    by (cases res)
       (simp_all add: pull_user_def pull_user_body_def chk r Let_def split_beta
          split: http_result.splits option.splits sum.splits)
  then show ?thesis by (simp add: w2 w1)
qed

text \<open>
  Claim C5. The refresh block sends a refresh exchange exactly when now is at or past
  \<open>expiresAt\<close> or now plus 30 minutes is; otherwise it returns the record it was given and
  changes nothing. A record that expires in 29 minutes, or in exactly 30, is refreshed;
  one that expires in 31 minutes is not. In the on-demand fetch, once the record is found
  and the rate limiter admits the call, the refresh exchanges sent are the earlier ones
  followed by this one exactly under that condition, and without a refresh the stored
  records are unchanged; the same holds for one user's task of the scheduled sweep.
\<close>

theorem refresh_when_expiring:
  "vendorCalls (snd (refresh_if_expiring env now uid tokens w)) =
     vendorCalls w @
       (if now \<ge> expiresAt tokens \<or> now + 30 * 60 * 1000 \<ge> expiresAt tokens
        then [refresh_request env tokens] else [])
   \<and> (\<not> (now \<ge> expiresAt tokens \<or> now + 30 * 60 * 1000 \<ge> expiresAt tokens) \<longrightarrow>
        refresh_if_expiring env now uid tokens w = (Inr tokens, w))
   \<and> (expiresAt tokens = now + 29 * 60 * 1000 \<or> expiresAt tokens = now + 30 * 60 * 1000 \<longrightarrow>
        vendorCalls (snd (refresh_if_expiring env now uid tokens w)) =
          vendorCalls w @ [refresh_request env tokens])
   \<and> (expiresAt tokens = now + 31 * 60 * 1000 \<longrightarrow>
        refresh_if_expiring env now uid tokens w = (Inr tokens, w))
   \<and> (getUserTokens env uid w = (Some tokens, w1)
       \<and> allowed (fst (checkRateLimit DEXCOM_API_CONFIG (rate_txn_fails env uid) now w1)) \<longrightarrow>
        refresh_calls (snd (dexcomFetchGlucoseData env now req (Some uid) w)) =
          refresh_calls w @
            (if now \<ge> expiresAt tokens \<or> now + 30 * 60 * 1000 \<ge> expiresAt tokens
             then [refresh_request env tokens] else [])
        \<and> (\<not> (now \<ge> expiresAt tokens \<or> now + 30 * 60 * 1000 \<ge> expiresAt tokens) \<longrightarrow>
             dexcomTokens (snd (dexcomFetchGlucoseData env now req (Some uid) w)) = dexcomTokens w))
   \<and> (allowed (fst (checkRateLimit DEXCOM_API_CONFIG (rate_txn_fails env (userId tokens)) now w)) \<longrightarrow>
        refresh_calls (pull_user env now tokens w) =
          refresh_calls w @
            (if now \<ge> expiresAt tokens \<or> now + 30 * 60 * 1000 \<ge> expiresAt tokens
             then [refresh_request env tokens] else []))"
proof -
  have d: "refresh_due now tokens =
      (now \<ge> expiresAt tokens \<or> now + 30 * 60 * 1000 \<ge> expiresAt tokens)"
    by (simp add: refresh_due_def)
  show ?thesis
    unfolding d [symmetric]
    apply (intro conjI impI)
    subgoal by (rule refresh_if_expiring_calls)
    subgoal by (rule refresh_if_expiring_not_due)
    subgoal by (auto simp: refresh_if_expiring_calls refresh_due_def)
    subgoal by (rule refresh_if_expiring_not_due) (simp add: refresh_due_def)
    subgoal by (elim conjE, rule fetch_refresh_calls)
    subgoal by (elim conjE, rule fetch_keeps_record)
    subgoal by (rule pull_user_refresh_calls)
    done
qed


theorem refresh_when_expiring_witness:
  "vendorCalls (snd (refresh_if_expiring sample_env 1700005460000 ''alice'' sample_tokens sample_world)) =
     [TokenCall ''https://api.dexcom.com/v2/oauth2/token'' (RefreshGrant ''refresh-1'')]
   \<and> vendorCalls (snd (refresh_if_expiring sample_env 1700005400000 ''alice'' sample_tokens sample_world)) =
     [TokenCall ''https://api.dexcom.com/v2/oauth2/token'' (RefreshGrant ''refresh-1'')]
   \<and> refresh_if_expiring sample_env 1700005340000 ''alice'' sample_tokens sample_world =
     (Inr sample_tokens, sample_world)
   \<and> refresh_calls (snd (dexcomFetchGlucoseData sample_env 1700005460000
        \<lparr> startDate = None, endDate = None \<rparr> (Some ''alice'') sample_world)) =
     [TokenCall ''https://api.dexcom.com/v2/oauth2/token'' (RefreshGrant ''refresh-1'')]
   \<and> refresh_calls (pull_user sample_env 1700005340000 sample_tokens sample_world) = []"
proof -
  have e: "expiresAt sample_tokens = 1700007200000" "refreshToken sample_tokens = ''refresh-1''"
    "userId sample_tokens = ''alice''"
    by (simp_all add: sample_tokens_def)
  have rq: "refresh_request sample_env sample_tokens =
      TokenCall ''https://api.dexcom.com/v2/oauth2/token'' (RefreshGrant ''refresh-1'')"
    by (simp add: refresh_request_def sample_env_def getDexcomBaseUrl_def DEXCOM_API_CONFIG_def e)
  have v: "vendorCalls sample_world = []" "refresh_calls sample_world = []"
    by (simp_all add: sample_world_def empty_world_def refresh_calls_def)
  have a: "allowed (fst (checkRateLimit DEXCOM_API_CONFIG (rate_txn_fails sample_env ''alice'') t sample_world))"
    for t
    by (simp add: checkRateLimit_def sample_env_def sample_world_def empty_world_def ledger_calls_def
        DEXCOM_API_CONFIG_def Let_def)
  show ?thesis
    using refresh_when_expiring
      [where env = sample_env and now = 1700005460000 and uid = "''alice''" and tokens = sample_tokens
         and w = sample_world and ?w1.0 = sample_world
         and req = "\<lparr> startDate = None, endDate = None \<rparr>"]
      refresh_when_expiring
      [where env = sample_env and now = 1700005400000 and uid = "''alice''" and tokens = sample_tokens
         and w = sample_world]
      refresh_when_expiring
      [where env = sample_env and now = 1700005340000 and uid = "''alice''" and tokens = sample_tokens
         and w = sample_world]
      sample_getUserTokens a
    by (simp add: e rq v)
qed

section \<open>The OAuth callback\<close>

lemma callback_persist_failed:
  assumes "tokens_set_fails env s"
  shows "callback_persist env now (JStr s) tokenData w =
     console_error ''Firestore save failed:'' (console_error ''Error saving user tokens:'' w)"
  using assms by (simp add: callback_persist_def saveUserTokens_def)

lemma callback_persist_stored:
  assumes "\<not> tokens_set_fails env s"
  shows "callback_persist env now (JStr s) tokenData w =
     snd (saveUserTokens env now s (access_token tokenData) (refresh_token tokenData)
            (now + expires_in tokenData * 1000) (Some now) w)"
  using assms by (simp add: callback_persist_def saveUserTokens_def)

lemma callback_exchange_succeeded:
  assumes "token_endpoint env (AuthorizationCode code (str_of (redirectUri (dexcomConfig env)))) =
             Response status body (Some tokenData)"
    and "response_ok status"
  shows "callback_exchange env now code uid w =
     (Inr (Redirect (frontendUrl (dexcomConfig env) @ ''/dexcom?success=true'')),
      callback_persist env now uid tokenData
        (send_vendor (TokenCall (getDexcomBaseUrl (useSandbox (dexcomConfig env)) @ ''/v2/oauth2/token'')
                        (AuthorizationCode code (str_of (redirectUri (dexcomConfig env))))) w))"
  using assms by (simp add: callback_exchange_def Let_def)

lemma callback_reaches_exchange:
  assumes cfg: "truthy_str (clientId (dexcomConfig env))" "truthy_str (clientSecret (dexcomConfig env))"
      "truthy_str (redirectUri (dexcomConfig env))"
    and q: "\<not> truthy_str (q_error query)" "q_code query = Some code" "code \<noteq> []"
      "q_state query = Some state" "state \<noteq> []"
    and dec: "state_decode env state = Some (JObj props)" "map_of props ''userId'' = Some uid"
      "js_truthy (Some uid)"
    and val: "valid (validateState env now state uid)"
  shows "dexcomOAuthCallback env now query w =
     (case callback_exchange env now code uid w of
        (Inl e, w1) \<Rightarrow> callback_catch env w1
      | (Inr r, w1) \<Rightarrow> (r, w1))"
  using assms by (simp add: dexcomOAuthCallback_def Let_def truthy_str_def str_of_def)

lemma callback_persist_refused:
  assumes "\<forall>s. uid \<noteq> JStr s"
  shows "callback_persist env now uid tokenData w =
     console_error ''Firestore save failed:'' (console_error ''Error saving user tokens:'' w)"
  using assms by (cases uid) (simp_all add: callback_persist_def)

lemma set_doc_found: "map_of (set_doc k v xs) k = Some v"
  by (induction xs) auto

text \<open>
  Claim C6. In the OAuth callback, once the configuration is complete, the query carries
  a code and a state and no error, the state decodes to an object with a user identifier
  and validates, and the vendor answers the exchange of the code with a success and a
  token body: the handler redirects to the front end with \<open>success=true\<close>, whether or
  not the credential record can be saved. When the save fails (the write is refused, or
  the identifier is not a string), the failure only adds the two log lines and no record
  is written; the redirect is the same as when the save succeeds.
\<close>

theorem dexcomOAuthCallback_persist_best_effort:
  assumes cfg: "truthy_str (clientId (dexcomConfig env))" "truthy_str (clientSecret (dexcomConfig env))"
      "truthy_str (redirectUri (dexcomConfig env))"
    and q: "\<not> truthy_str (q_error query)" "q_code query = Some code" "code \<noteq> []"
      "q_state query = Some state" "state \<noteq> []"
    and dec: "state_decode env state = Some (JObj props)" "map_of props ''userId'' = Some uid"
      "js_truthy (Some uid)"
    and val: "valid (validateState env now state uid)"
    and exch: "token_endpoint env (AuthorizationCode code (str_of (redirectUri (dexcomConfig env)))) =
             Response status body (Some tokenData)" "response_ok status"
  shows "fst (dexcomOAuthCallback env now query w) =
           Redirect (frontendUrl (dexcomConfig env) @ ''/dexcom?success=true'')
       \<and> ((uid = JStr s \<and> tokens_set_fails env s) \<or> (\<forall>s'. uid \<noteq> JStr s') \<longrightarrow>
            errorLog (snd (dexcomOAuthCallback env now query w)) =
              errorLog w @ [''Error saving user tokens:'', ''Firestore save failed:'']
            \<and> dexcomTokens (snd (dexcomOAuthCallback env now query w)) = dexcomTokens w)
       \<and> (uid = JStr s \<and> \<not> tokens_set_fails env s \<longrightarrow>
            errorLog (snd (dexcomOAuthCallback env now query w)) = errorLog w
            \<and> map_of (dexcomTokens (snd (dexcomOAuthCallback env now query w))) s =
                Some \<lparr> userId = s, accessToken = access_token tokenData,
                       refreshToken = refresh_token tokenData,
                       expiresAt = now + expires_in tokenData * 1000,
                       refreshTokenCreatedAt = now, lastRefresh = Some now,
                       createdAt = WrittenAt now, updatedAt = WrittenAt now \<rparr>)"
proof -
  note run = callback_reaches_exchange [OF cfg q dec val, of w]
    callback_exchange_succeeded [OF exch]
  have a: "fst (dexcomOAuthCallback env now query w) =
           Redirect (frontendUrl (dexcomConfig env) @ ''/dexcom?success=true'')"
    by (simp add: run)
  have b: "errorLog (snd (dexcomOAuthCallback env now query w)) =
              errorLog w @ [''Error saving user tokens:'', ''Firestore save failed:'']
            \<and> dexcomTokens (snd (dexcomOAuthCallback env now query w)) = dexcomTokens w"
    if "(uid = JStr s \<and> tokens_set_fails env s) \<or> (\<forall>s'. uid \<noteq> JStr s')"
    using that
  proof
    assume "uid = JStr s \<and> tokens_set_fails env s"
    then show ?thesis
      by (simp add: run callback_persist_failed console_error_def send_vendor_def)
  next
    assume "\<forall>s'. uid \<noteq> JStr s'"
    then show ?thesis
      by (simp add: run callback_persist_refused console_error_def send_vendor_def)
  qed
  have c: "errorLog (snd (dexcomOAuthCallback env now query w)) = errorLog w
            \<and> map_of (dexcomTokens (snd (dexcomOAuthCallback env now query w))) s =
                Some \<lparr> userId = s, accessToken = access_token tokenData,
                       refreshToken = refresh_token tokenData,
                       expiresAt = now + expires_in tokenData * 1000,
                       refreshTokenCreatedAt = now, lastRefresh = Some now,
                       createdAt = WrittenAt now, updatedAt = WrittenAt now \<rparr>"
    if "uid = JStr s \<and> \<not> tokens_set_fails env s"
    using that
    by (simp add: run callback_persist_stored saveUserTokens_def send_vendor_def set_doc_found)
  from a b c show ?thesis by blast
qed

theorem dexcomOAuthCallback_persist_best_effort_witness:
  "fst (dexcomOAuthCallback (sample_env\<lparr>tokens_set_fails := (\<lambda>u. True)\<rparr>) 1700000060000
          sample_query empty_world) = Redirect ''https://front.test/dexcom?success=true''
   \<and> errorLog (snd (dexcomOAuthCallback (sample_env\<lparr>tokens_set_fails := (\<lambda>u. True)\<rparr>) 1700000060000
          sample_query empty_world)) = [''Error saving user tokens:'', ''Firestore save failed:'']
   \<and> dexcomTokens (snd (dexcomOAuthCallback (sample_env\<lparr>tokens_set_fails := (\<lambda>u. True)\<rparr>)
          1700000060000 sample_query empty_world)) = []"
proof -
  let ?env = "sample_env\<lparr>tokens_set_fails := (\<lambda>u. True)\<rparr>"
  have cfg: "truthy_str (clientId (dexcomConfig ?env))" "truthy_str (clientSecret (dexcomConfig ?env))"
      "truthy_str (redirectUri (dexcomConfig ?env))"
    by (simp_all add: sample_env_def truthy_str_def)
  have q: "\<not> truthy_str (q_error sample_query)" "q_code sample_query = Some ''code-1''"
      "''code-1'' \<noteq> []" "q_state sample_query = Some sample_token" "sample_token \<noteq> []"
    by (simp_all add: sample_query_def truthy_str_def sample_token_def)
  have dec: "state_decode ?env sample_token =
      Some (JObj [(''userId'', JStr ''alice''), (''timestamp'', JNum 1700000000000),
                  (''nonce'', JStr ''000102030405060708090a0b0c0d0e0f'')])"
    "map_of [(''userId'', JStr ''alice''), (''timestamp'', JNum 1700000000000),
             (''nonce'', JStr ''000102030405060708090a0b0c0d0e0f'')] ''userId'' = Some (JStr ''alice'')"
    "js_truthy (Some (JStr ''alice''))"
    by (simp_all add: sample_env_def sample_state_def)
  have val: "valid (validateState ?env 1700000060000 sample_token (JStr ''alice''))"
  proof -
    have nc: "number_conv ?env = (\<lambda>v. None)" by (simp add: sample_env_def)
    show ?thesis unfolding validateState_decoded [OF dec(1)] by (simp add: nc)
  qed
  have exch: "token_endpoint ?env (AuthorizationCode ''code-1'' (str_of (redirectUri (dexcomConfig ?env)))) =
      Response 200 [] (Some \<lparr> access_token = ''access-2'', refresh_token = ''refresh-2'', expires_in = 7200 \<rparr>)"
    "response_ok 200"
    by (simp_all add: sample_env_def response_ok_def)
  show ?thesis
    using dexcomOAuthCallback_persist_best_effort [OF cfg q dec val exch, where s = "''alice''" and w = empty_world]
    by (simp add: sample_env_def empty_world_def)
qed

section \<open>The scheduled sweep\<close>




lemma refreshAccessToken_rateLimits [simp]:
  "rateLimits (snd (refreshAccessToken env now uid rt w)) = rateLimits w"
  by (simp add: refreshAccessToken_def Let_def split_beta
      split: http_result.splits option.splits sum.splits)

lemma refresh_if_expiring_rateLimits [simp]:
  "rateLimits (snd (refresh_if_expiring env now uid tokens w)) = rateLimits w"
  by (cases "refresh_due now tokens")
     (simp_all add: refresh_if_expiring_due refresh_if_expiring_not_due)



















lemma batch_writes_parsed:
  "batch_writes parse now uid rs = Some ws \<Longrightarrow> r \<in> set rs \<Longrightarrow>
     \<exists>t. parse (systemTime r) = Some t"
proof (induction rs arbitrary: ws)
  case Nil
  then show ?case by simp
next
  case (Cons a rs)
  from Cons.prems(1) obtain wr ws' where
    wr: "reading_write parse now uid a = Some wr"
    and ws': "batch_writes parse now uid rs = Some ws'"
    by (auto split: option.splits)
  from wr obtain t where "Timestamp_fromDate (parse (systemTime a)) = Some t"
    by (auto simp: reading_write_def Let_def split: option.splits)
  then have a: "parse (systemTime a) = Some t" by (rule Timestamp_fromDate_Some)
  show ?case
  proof (cases "r = a")
    case True
    with a show ?thesis by blast
  next
    case False
    with Cons.prems(2) have "r \<in> set rs" by simp
    from Cons.IH [OF ws' this] show ?thesis .
  qed
qed











end
